theory Spec2Isabelle
  imports Complex_Main "HOL-Library.Char_ord" "HOL-Library.List_Lexorder"
begin

section \<open>Floating-point values\<close>

text \<open>
  The arrays of \<^verbatim>\<open>core/aps.py\<close> hold IEEE floating-point numbers. They are modelled
  as exact reals extended by the three non-finite values: \<open>NaN\<close> (the missing-data
  marker of the pipeline), \<open>PInf\<close> and \<open>NInf\<close>. Rounding, overflow and the sign of zero
  are outside the model; the rules for the non-finite values are those of IEEE 754
  with zero taken as positive.
\<close>

datatype fl = NaN | PInf | NInf | Fin real

definition isnan :: "fl \<Rightarrow> bool" where
  "isnan x = (x = NaN)"

definition isfin :: "fl \<Rightarrow> bool" where
  "isfin x = (case x of Fin r \<Rightarrow> True | _ \<Rightarrow> False)"

fun fneg :: "fl \<Rightarrow> fl" where
  "fneg NaN = NaN"
| "fneg PInf = NInf"
| "fneg NInf = PInf"
| "fneg (Fin x) = Fin (- x)"

fun fadd :: "fl \<Rightarrow> fl \<Rightarrow> fl" where
  "fadd NaN y = NaN"
| "fadd x NaN = NaN"
| "fadd PInf NInf = NaN"
| "fadd NInf PInf = NaN"
| "fadd PInf y = PInf"
| "fadd NInf y = NInf"
| "fadd x PInf = PInf"
| "fadd x NInf = NInf"
| "fadd (Fin x) (Fin y) = Fin (x + y)"

definition fsub :: "fl \<Rightarrow> fl \<Rightarrow> fl" where
  "fsub x y = fadd x (fneg y)"

text \<open>The sign of a value that is not NaN: \<open>True\<close> for negative.\<close>

fun fsign :: "fl \<Rightarrow> bool" where
  "fsign NInf = True"
| "fsign (Fin x) = (x < 0)"
| "fsign x = False"

definition finf :: "bool \<Rightarrow> fl" where
  "finf neg = (if neg then NInf else PInf)"

definition fzero :: "fl \<Rightarrow> bool" where
  "fzero x = (x = Fin 0)"

definition finfinite :: "fl \<Rightarrow> bool" where
  "finfinite x = (x = PInf \<or> x = NInf)"

definition fmul :: "fl \<Rightarrow> fl \<Rightarrow> fl" where
  "fmul x y =
     (case (x, y) of
        (Fin a, Fin b) \<Rightarrow> Fin (a * b)
      | _ \<Rightarrow> if isnan x \<or> isnan y then NaN
             else if fzero x \<or> fzero y then NaN
             else finf (fsign x \<noteq> fsign y))"

definition fdiv :: "fl \<Rightarrow> fl \<Rightarrow> fl" where
  "fdiv x y =
     (if isnan x \<or> isnan y then NaN
      else if finfinite x then (if finfinite y then NaN else finf (fsign x \<noteq> fsign y))
      else if finfinite y then Fin 0
      else case (x, y) of
             (Fin a, Fin b) \<Rightarrow>
               if b = 0 then (if a = 0 then NaN else finf (a < 0)) else Fin (a / b)
           | _ \<Rightarrow> NaN)"

fun fexp :: "fl \<Rightarrow> fl" where
  "fexp NaN = NaN"
| "fexp PInf = PInf"
| "fexp NInf = Fin 0"
| "fexp (Fin x) = Fin (exp x)"

text \<open>\<^verbatim>\<open>x ** n\<close> for a natural exponent; \<^verbatim>\<open>x ** 0\<close> is 1 for every \<open>x\<close>, NaN included.\<close>

fun fpow :: "fl \<Rightarrow> nat \<Rightarrow> fl" where
  "fpow x 0 = Fin 1"
| "fpow x (Suc n) = fmul x (fpow x n)"

text \<open>\<^verbatim>\<open>np.sum\<close> of a one-dimensional array; the sum of no element is 0.\<close>

fun fsum :: "fl list \<Rightarrow> fl" where
  "fsum [] = Fin 0"
| "fsum (x # xs) = fadd x (fsum xs)"

section \<open>Errors and one-dimensional array operations\<close>

datatype error =
    ValueError | IndexError | KeyError | TypeError | FileNotFoundError | RasterError
  | MissingScratchDataError | ShapeMismatchError

text \<open>
  A \<^verbatim>\<open>for\<close> loop over a list whose body updates a state or raises: the first error
  ends the loop.
\<close>

fun for_each :: "'a list \<Rightarrow> ('a \<Rightarrow> 's \<Rightarrow> error + 's) \<Rightarrow> 's \<Rightarrow> error + 's" where
  "for_each [] body s = Inr s"
| "for_each (x # xs) body s =
     (case body x s of Inl e \<Rightarrow> Inl e | Inr s' \<Rightarrow> for_each xs body s')"

text \<open>
  An elementwise operation of numpy on two one-dimensional arrays: equal lengths
  combine pointwise, a length-one array is broadcast, any other pair of lengths raises
  \<^verbatim>\<open>ValueError\<close>.
\<close>

definition np_binop :: "('a \<Rightarrow> 'b \<Rightarrow> 'c) \<Rightarrow> 'a list \<Rightarrow> 'b list \<Rightarrow> error + 'c list" where
  "np_binop f xs ys =
     (if length xs = length ys then Inr (map2 f xs ys)
      else if length xs = 1 then Inr (map (f (hd xs)) ys)
      else if length ys = 1 then Inr (map (\<lambda>x. f x (hd ys)) xs)
      else Inl ValueError)"

text \<open>\<^verbatim>\<open>np.diff\<close>: the differences of neighbouring elements.\<close>

definition np_diff :: "real list \<Rightarrow> real list" where
  "np_diff xs = map2 (\<lambda>a b. b - a) xs (tl xs)"

text \<open>
  \<^verbatim>\<open>a[sel]\<close> for an index array \<open>sel\<close> of naturals: an index outside the array raises
  \<^verbatim>\<open>IndexError\<close>.
\<close>

definition np_take :: "'a list \<Rightarrow> nat list \<Rightarrow> error + 'a list" where
  "np_take a sel =
     (if list_all (\<lambda>s. s < length a) sel then Inr (map (\<lambda>s. a ! s) sel) else Inl IndexError)"

definition np_get :: "'a list \<Rightarrow> nat \<Rightarrow> error + 'a" where
  "np_get a i = (if i < length a then Inr (a ! i) else Inl IndexError)"

text \<open>\<^verbatim>\<open>np.nonzero(b)[0]\<close> of a boolean vector of length \<open>n\<close>: the indices that hold.\<close>

definition np_nonzero :: "(nat \<Rightarrow> bool) \<Rightarrow> nat \<Rightarrow> nat list" where
  "np_nonzero b n = filter b [0..<n]"

section \<open>Arrays and configuration\<close>

text \<open>
  A dense array is its shape and its cells; a read outside the shape is written out
  as an error wherever the source can make one.
\<close>

type_synonym cells3 = "nat \<Rightarrow> nat \<Rightarrow> nat \<Rightarrow> fl"
type_synonym cells2 = "nat \<Rightarrow> nat \<Rightarrow> fl"

record cube =
  rows3 :: nat
  cols3 :: nat
  epochs3 :: nat
  at3 :: cells3

record grid =
  rows2 :: nat
  cols2 :: nat
  at2 :: cells2

text \<open>The entries of the parameter dictionary that \<^verbatim>\<open>core/aps.py\<close> reads.\<close>

record params =
  apsest :: int
  tmpdir :: string
  time_series_method :: int
  tlpf_cutoff :: real
  tlpf_method :: int
  tlpf_pthr :: int
  slpf_cutoff :: real
  slpf_method :: int
  slpf_order :: nat
  slpf_nanfill :: int
  slpf_nanfill_method :: string

section \<open>Temporal low-pass filter\<close>

text \<open>The three kernels: \<^verbatim>\<open>gauss\<close>, \<^verbatim>\<open>_triangle\<close> and \<^verbatim>\<open>mean_filter\<close>.\<close>

definition gauss :: "nat \<Rightarrow> real list \<Rightarrow> real \<Rightarrow> fl list" where
  "gauss m yr cutoff =
     map (\<lambda>y. fexp (fdiv (fneg (fpow (fdiv (Fin y) (Fin cutoff)) 2)) (Fin 2))) yr"

definition triangle :: "nat \<Rightarrow> real list \<Rightarrow> real \<Rightarrow> fl list" where
  "triangle m yr cutoff =
     map (\<lambda>y. let wgt = cutoff - \<bar>y\<bar> in Fin (if wgt < 0 then 0 else wgt)) yr"

definition mean_filter :: "nat \<Rightarrow> real list \<Rightarrow> real \<Rightarrow> fl list" where
  "mean_filter m yr cutoff = replicate m (Fin 1)"

text \<open>\<^verbatim>\<open>wgt /= np.sum(wgt)\<close>\<close>

definition normalise :: "fl list \<Rightarrow> fl list" where
  "normalise wgt = map (\<lambda>w. fdiv w (fsum wgt)) wgt"

text \<open>
  The weights of one output epoch, lines 487 to 489: the offsets \<^verbatim>\<open>span[sel] - span[sel[k]]\<close>,
  the kernel, the normalisation.
\<close>

definition weights ::
  "(nat \<Rightarrow> real list \<Rightarrow> real \<Rightarrow> fl list) \<Rightarrow> real \<Rightarrow> real list \<Rightarrow> nat list \<Rightarrow> nat \<Rightarrow> error + fl list"
where
  "weights func cutoff spanv sel k =
     (case np_take spanv sel of
        Inl e \<Rightarrow> Inl e
      | Inr ssel \<Rightarrow>
          (case np_get sel k of
             Inl e \<Rightarrow> Inl e
           | Inr sk \<Rightarrow>
               (case np_get spanv sk of
                  Inl e \<Rightarrow> Inl e
                | Inr c \<Rightarrow> Inr (normalise (func (length sel) (map (\<lambda>x. x - c) ssel) cutoff)))))"

text \<open>
  The value stored by line 490 for the \<open>k\<close>-th valid epoch of pixel \<open>(i, j)\<close>:
  \<^verbatim>\<open>np.sum(tsincr[i, j, sel] * wgt)\<close>.
\<close>

definition tlp_value ::
  "(nat \<Rightarrow> real list \<Rightarrow> real \<Rightarrow> fl list) \<Rightarrow> real \<Rightarrow> real list \<Rightarrow> cells3 \<Rightarrow> nat list \<Rightarrow>
   nat \<Rightarrow> nat \<Rightarrow> nat \<Rightarrow> error + fl"
where
  "tlp_value func cutoff spanv tsincr sel i j k =
     (case weights func cutoff spanv sel k of
        Inl e \<Rightarrow> Inl e
      | Inr wgt \<Rightarrow>
          (case np_binop fmul (map (tsincr i j) sel) wgt of
             Inl e \<Rightarrow> Inl e
           | Inr prods \<Rightarrow> Inr (fsum prods)))"

text \<open>\<^verbatim>\<open>a[i, j, k] = v\<close>\<close>

definition set3 :: "cells3 \<Rightarrow> nat \<Rightarrow> nat \<Rightarrow> nat \<Rightarrow> fl \<Rightarrow> cells3" where
  "set3 a i j k v = a(i := (a i)(j := (a i j)(k := v)))"

text \<open>The body of the loop over \<open>k\<close>, lines 487 to 490.\<close>

definition tlp_step ::
  "(nat \<Rightarrow> real list \<Rightarrow> real \<Rightarrow> fl list) \<Rightarrow> real \<Rightarrow> real list \<Rightarrow> cells3 \<Rightarrow> nat list \<Rightarrow>
   nat \<Rightarrow> nat \<Rightarrow> nat \<Rightarrow> cells3 \<Rightarrow> error + cells3"
where
  "tlp_step func cutoff spanv tsincr sel i j k tsfilt_incr =
     (case tlp_value func cutoff spanv tsincr sel i j k of
        Inl e \<Rightarrow> Inl e
      | Inr v \<Rightarrow> Inr (set3 tsfilt_incr i j (sel ! k) v))"

text \<open>The body of the loop over \<open>j\<close>, lines 483 to 490: one pixel.\<close>

definition tlp_pixel ::
  "(nat \<Rightarrow> real list \<Rightarrow> real \<Rightarrow> fl list) \<Rightarrow> real \<Rightarrow> (nat \<Rightarrow> nat \<Rightarrow> nat \<Rightarrow> bool) \<Rightarrow> nat \<Rightarrow>
   real list \<Rightarrow> int \<Rightarrow> cells3 \<Rightarrow> nat \<Rightarrow> nat \<Rightarrow> cells3 \<Rightarrow> error + cells3"
where
  "tlp_pixel func cutoff nanmat n spanv threshold tsincr i j tsfilt_incr =
     (let sel = np_nonzero (nanmat i j) n;
          m = length sel
      in if int m \<ge> threshold
         then for_each [0..<m] (tlp_step func cutoff spanv tsincr sel i j) tsfilt_incr
         else Inr tsfilt_incr)"

text \<open>
  \<^verbatim>\<open>_tlpfilter\<close>: the array \<^verbatim>\<open>tsfilt_incr\<close> is updated in place, so the model returns its
  new cells. The length \<open>n\<close> of the epoch axis is what \<^verbatim>\<open>nanmat[i, j, :]\<close> ranges over.
\<close>

definition tlpfilter ::
  "nat \<Rightarrow> real \<Rightarrow> (nat \<Rightarrow> nat \<Rightarrow> nat \<Rightarrow> bool) \<Rightarrow> nat \<Rightarrow> nat \<Rightarrow> real list \<Rightarrow> int \<Rightarrow> cells3 \<Rightarrow> cells3 \<Rightarrow>
   (nat \<Rightarrow> real list \<Rightarrow> real \<Rightarrow> fl list) \<Rightarrow> error + cells3"
where
  "tlpfilter cols cutoff nanmat n rows spanv threshold tsfilt_incr tsincr func =
     for_each [0..<rows]
       (\<lambda>i. for_each [0..<cols] (tlp_pixel func cutoff nanmat n spanv threshold tsincr i))
       tsfilt_incr"

text \<open>The kernel chosen by lines 428 to 433.\<close>

definition tlpf_func :: "int \<Rightarrow> nat \<Rightarrow> real list \<Rightarrow> real \<Rightarrow> fl list" where
  "tlpf_func method =
     (if method = 1 then gauss else if method = 2 then triangle else mean_filter)"

text \<open>
  Lines 422 and 423: the accumulated time of each increment,
  \<^verbatim>\<open>epochlist.spans[: tsincr.shape[2]] + intv / 2\<close>.
\<close>

definition tlpf_span :: "nat \<Rightarrow> real list \<Rightarrow> error + real list" where
  "tlpf_span n spans = np_binop (+) (take n spans) (map (\<lambda>d. d / 2) (np_diff spans))"

text \<open>
  \<^verbatim>\<open>temporal_low_pass_filter\<close>. The epoch list enters by its \<^verbatim>\<open>spans\<close>, the elapsed
  years of each epoch. The result array starts as NaN everywhere
  (\<^verbatim>\<open>np.empty_like(tsincr) * np.nan\<close>).
\<close>

definition temporal_low_pass_filter :: "cube \<Rightarrow> real list \<Rightarrow> params \<Rightarrow> error + cube" where
  "temporal_low_pass_filter tsincr spans p =
     (let nanmat = (\<lambda>i j k. \<not> isnan (at3 tsincr i j k));
          tsfilt_incr = (\<lambda>i j k. NaN)
      in case tlpf_span (epochs3 tsincr) spans of
           Inl e \<Rightarrow> Inl e
         | Inr spanv \<Rightarrow>
             (case tlpfilter (cols3 tsincr) (tlpf_cutoff p) nanmat (epochs3 tsincr)
                     (rows3 tsincr) spanv (tlpf_pthr p) tsfilt_incr (at3 tsincr)
                     (tlpf_func (tlpf_method p)) of
                Inl e \<Rightarrow> Inl e
              | Inr out \<Rightarrow> Inr (tsincr\<lparr>at3 := out\<rparr>)))"

section \<open>Notions used to state the properties\<close>

text \<open>The valid epochs of a pixel: the indices \<open>sel\<close> at which its series is not NaN.\<close>

definition valid_epochs :: "cube \<Rightarrow> nat \<Rightarrow> nat \<Rightarrow> nat list" where
  "valid_epochs tsincr i j = np_nonzero (\<lambda>k. \<not> isnan (at3 tsincr i j k)) (epochs3 tsincr)"

text \<open>
  The configurations in which the kernel weights of a pixel have a non-zero sum: any
  cutoff for the mean kernel, a cutoff other than zero for the Gaussian kernel, a
  positive cutoff for the triangular kernel.
\<close>

definition kernel_ok :: "int \<Rightarrow> real \<Rightarrow> bool" where
  "kernel_ok method cutoff =
     (if method = 1 then cutoff \<noteq> 0 else if method = 2 then cutoff > 0 else True)"

text \<open>A kernel that returns one weight per offset, as the three kernels do.\<close>

definition kernel_len :: "(nat \<Rightarrow> real list \<Rightarrow> real \<Rightarrow> fl list) \<Rightarrow> bool" where
  "kernel_len func = (\<forall>yr cutoff. length (func (length yr) yr cutoff) = length yr)"


text \<open>Concrete inputs: one pixel, two increments, three epochs one year apart.\<close>

definition w_cube :: cube where
  "w_cube = \<lparr>rows3 = 1, cols3 = 1, epochs3 = 2, at3 = (\<lambda>i j k. if k = 0 then Fin 1 else Fin 3)\<rparr>"

definition w_gap_cube :: cube where
  "w_gap_cube = \<lparr>rows3 = 1, cols3 = 1, epochs3 = 2, at3 = (\<lambda>i j k. if k = 0 then NaN else Fin 3)\<rparr>"

definition w_params :: params where
  "w_params = \<lparr>apsest = 1, tmpdir = ''tmp'', time_series_method = 1, tlpf_cutoff = 1,
     tlpf_method = 3, tlpf_pthr = 2, slpf_cutoff = 1, slpf_method = 2, slpf_order = 1,
     slpf_nanfill = 0, slpf_nanfill_method = ''linear''\<rparr>"

text \<open>The same pixel with the triangular kernel and a cutoff of zero years.\<close>

definition w_tri0_params :: params where
  "w_tri0_params = w_params\<lparr>tlpf_method := 2, tlpf_cutoff := 0\<rparr>"


section \<open>Spatial low-pass filter\<close>

text \<open>
  What \<^verbatim>\<open>core/aps.py\<close> reads of an interferogram object: its shape and its pixel sizes
  in metres.
\<close>

record ifg =
  ifg_rows :: nat
  ifg_cols :: nat
  x_size :: real
  y_size :: real

text \<open>The cells of a \<open>rows \<times> cols\<close> array in row-major order, the order of a boolean mask.\<close>

definition positions :: "nat \<Rightarrow> nat \<Rightarrow> (nat \<times> nat) list" where
  "positions rows cols = concat (map (\<lambda>r. map (\<lambda>c. (r, c)) [0..<cols]) [0..<rows])"

text \<open>\<^verbatim>\<open>ts_lp[:, :, i]\<close> and the assignment to it, with numpy's broadcasting of the right side.\<close>

definition slice3 :: "cube \<Rightarrow> nat \<Rightarrow> grid" where
  "slice3 a i = \<lparr>rows2 = rows3 a, cols2 = cols3 a, at2 = (\<lambda>r c. at3 a r c i)\<rparr>"

definition bcast_to :: "nat \<Rightarrow> nat \<Rightarrow> bool" where
  "bcast_to d target = (d = target \<or> d = 1)"

definition bidx :: "nat \<Rightarrow> nat \<Rightarrow> nat" where
  "bidx d i = (if d = 1 then 0 else i)"

definition set_slice3 :: "cube \<Rightarrow> nat \<Rightarrow> grid \<Rightarrow> error + cube" where
  "set_slice3 a i g =
     (if bcast_to (rows2 g) (rows3 a) \<and> bcast_to (cols2 g) (cols3 a)
      then Inr (a\<lparr>at3 := (\<lambda>r c k.
                 if k = i \<and> r < rows3 a \<and> c < cols3 a
                 then at2 g (bidx (rows2 g) r) (bidx (cols2 g) c) else at3 a r c k)\<rparr>)
      else Inl ValueError)"

text \<open>\<^verbatim>\<open>a[np.isnan(a)] = 0\<close> on a cube and on a slice.\<close>

definition zero_fill3 :: "cube \<Rightarrow> cube" where
  "zero_fill3 a = a\<lparr>at3 := (\<lambda>r c k. if isnan (at3 a r c k) then Fin 0 else at3 a r c k)\<rparr>"

definition zero_fill2 :: "grid \<Rightarrow> grid" where
  "zero_fill2 a = a\<lparr>at2 := (\<lambda>r c. if isnan (at2 a r c) then Fin 0 else at2 a r c)\<rparr>"

text \<open>
  \<^verbatim>\<open>a[mask] = values\<close> for the cells \<open>ps\<close> of the mask in row-major order: as many values
  as cells, or one value for all of them; anything else raises \<^verbatim>\<open>ValueError\<close>.
\<close>

definition mask_assign :: "grid \<Rightarrow> (nat \<times> nat) list \<Rightarrow> fl list \<Rightarrow> error + grid" where
  "mask_assign a ps vs =
     (if length vs = length ps
      then Inr (a\<lparr>at2 := (\<lambda>r c. case map_of (zip ps vs) (r, c) of
                                     Some v \<Rightarrow> v | None \<Rightarrow> at2 a r c)\<rparr>)
      else if length vs = 1
      then Inr (a\<lparr>at2 := (\<lambda>r c. if (r, c) \<in> set ps then hd vs else at2 a r c)\<rparr>)
      else Inl ValueError)"

text \<open>
  \<^verbatim>\<open>_interpolate_nans_2d\<close>. \<^verbatim>\<open>scipy.interpolate.griddata\<close> is a parameter: it is given
  the known points, their values, the points to fill and the method.
\<close>

type_synonym griddata_fn =
  "(nat \<times> nat) list \<Rightarrow> fl list \<Rightarrow> (nat \<times> nat) list \<Rightarrow> string \<Rightarrow> error + fl list"

definition interpolate_nans_2d :: "griddata_fn \<Rightarrow> grid \<Rightarrow> string \<Rightarrow> error + grid" where
  "interpolate_nans_2d griddata a method =
     (let ps = positions (rows2 a) (cols2 a);
          known = filter (\<lambda>(r, c). \<not> isnan (at2 a r c)) ps;
          missing = filter (\<lambda>(r, c). isnan (at2 a r c)) ps
      in case griddata known (map (\<lambda>(r, c). at2 a r c) known) missing method of
           Inl e \<Rightarrow> Inl e
         | Inr vs \<Rightarrow>
             (case mask_assign a missing vs of
                Inl e \<Rightarrow> Inl e
              | Inr b \<Rightarrow> Inr (zero_fill2 b)))"

text \<open>\<^verbatim>\<open>_interpolate_nans\<close>: every slice in turn, in place.\<close>

definition interpolate_nans :: "griddata_fn \<Rightarrow> cube \<Rightarrow> string \<Rightarrow> error + cube" where
  "interpolate_nans griddata arr method =
     for_each [0..<epochs3 arr]
       (\<lambda>i a. case interpolate_nans_2d griddata (slice3 a i) method of
                 Inl e \<Rightarrow> Inl e
               | Inr g \<Rightarrow> set_slice3 a i g)
       arr"

subsection \<open>The discrete Fourier transform\<close>

text \<open>
  \<^verbatim>\<open>fft2\<close> and \<^verbatim>\<open>ifft2\<close> of scipy are modelled by the exact discrete Fourier transform
  on arrays of finite values. A spectrum cell is \<open>None\<close> when it is not finite: an input
  that holds a NaN or an infinity makes every cell of the transform non-finite, and the
  real part of such a cell is NaN.
\<close>

record cgrid =
  crows :: nat
  ccols :: nat
  cat :: "nat \<Rightarrow> nat \<Rightarrow> complex option"

definition fval :: "fl \<Rightarrow> real" where
  "fval x = (case x of Fin r \<Rightarrow> r | _ \<Rightarrow> 0)"

definition twiddle :: "nat \<Rightarrow> nat \<Rightarrow> nat \<Rightarrow> nat \<Rightarrow> nat \<Rightarrow> nat \<Rightarrow> real" where
  "twiddle rows cols u v r c = 2 * pi * (real (u * r) / real rows + real (v * c) / real cols)"

definition fft2 :: "grid \<Rightarrow> cgrid" where
  "fft2 x =
     (let ps = positions (rows2 x) (cols2 x)
      in \<lparr>crows = rows2 x, ccols = cols2 x,
          cat = (if list_all (\<lambda>(r, c). isfin (at2 x r c)) ps
                 then (\<lambda>u v. Some (sum_list (map (\<lambda>(r, c).
                         of_real (fval (at2 x r c)) * cis (- twiddle (rows2 x) (cols2 x) u v r c)) ps)))
                 else (\<lambda>u v. None))\<rparr>)"

definition ifft2 :: "cgrid \<Rightarrow> cgrid" where
  "ifft2 x =
     (let ps = positions (crows x) (ccols x)
      in x\<lparr>cat := (if list_all (\<lambda>(u, v). cat x u v \<noteq> None) ps
                   then (\<lambda>r c. Some (sum_list (map (\<lambda>(u, v).
                           the (cat x u v) * cis (twiddle (crows x) (ccols x) u v r c)) ps)
                         / of_nat (crows x * ccols x)))
                   else (\<lambda>r c. None))\<rparr>)"

text \<open>\<^verbatim>\<open>fftshift\<close> rolls each axis forward by half its length, \<^verbatim>\<open>ifftshift\<close> back.\<close>

definition fftshift :: "cgrid \<Rightarrow> cgrid" where
  "fftshift x =
     x\<lparr>cat := (\<lambda>u v. cat x ((u + crows x - crows x div 2) mod crows x)
                             ((v + ccols x - ccols x div 2) mod ccols x))\<rparr>"

definition ifftshift :: "cgrid \<Rightarrow> cgrid" where
  "ifftshift x =
     x\<lparr>cat := (\<lambda>u v. cat x ((u + crows x div 2) mod crows x) ((v + ccols x div 2) mod ccols x))\<rparr>"

text \<open>\<^verbatim>\<open>np.real\<close>\<close>

definition np_real :: "cgrid \<Rightarrow> grid" where
  "np_real x = \<lparr>rows2 = crows x, cols2 = ccols x,
                at2 = (\<lambda>r c. case cat x r c of Some z \<Rightarrow> Fin (Re z) | None \<Rightarrow> NaN)\<rparr>"

text \<open>
  \<^verbatim>\<open>imf * H\<close>: the elementwise product of the spectrum with the real transfer function,
  with numpy's broadcasting of two-dimensional shapes.
\<close>

definition bcast_dims :: "nat \<Rightarrow> nat \<Rightarrow> nat option" where
  "bcast_dims a b = (if a = b then Some a else if a = 1 then Some b else if b = 1 then Some a else None)"

definition cmul :: "complex option \<Rightarrow> fl \<Rightarrow> complex option" where
  "cmul z h = (case (z, h) of (Some w, Fin x) \<Rightarrow> Some (w * of_real x) | _ \<Rightarrow> None)"

definition spectrum_times :: "cgrid \<Rightarrow> grid \<Rightarrow> error + cgrid" where
  "spectrum_times imf H =
     (case (bcast_dims (crows imf) (rows2 H), bcast_dims (ccols imf) (cols2 H)) of
        (Some rows, Some cols) \<Rightarrow>
          Inr \<lparr>crows = rows, ccols = cols,
               cat = (\<lambda>u v. cmul (cat imf (bidx (crows imf) u) (bidx (ccols imf) v))
                                  (at2 H (bidx (rows2 H) u) (bidx (cols2 H) v)))\<rparr>
      | _ \<Rightarrow> Inl ValueError)"

subsection \<open>The filter\<close>

text \<open>The two transfer functions of lines 386 and 388, at a distance in kilometres.\<close>

definition butterworth :: "nat \<Rightarrow> fl \<Rightarrow> real \<Rightarrow> fl" where
  "butterworth order cutoff dst =
     fdiv (Fin 1) (fadd (Fin 1) (fpow (fdiv (Fin dst) cutoff) (2 * order)))"

definition gaussian :: "fl \<Rightarrow> real \<Rightarrow> fl" where
  "gaussian cutoff dst =
     fexp (fdiv (fneg (fpow (Fin dst) 2)) (fmul (Fin 2) (fpow cutoff 2)))"

text \<open>Lines 385 to 388: the choice of the transfer function.\<close>

definition slp_transfer :: "params \<Rightarrow> fl \<Rightarrow> real \<Rightarrow> fl" where
  "slp_transfer p cutoff dst =
     (if slpf_method p = 1 then butterworth (slpf_order p) cutoff dst
      else gaussian cutoff dst)"

text \<open>Lines 374 to 383: the distance of cell \<open>(r, c)\<close> from the centre, in kilometres.\<close>

definition slp_dist :: "nat \<Rightarrow> nat \<Rightarrow> real \<Rightarrow> real \<Rightarrow> nat \<Rightarrow> nat \<Rightarrow> real" where
  "slp_dist rows cols xs ys r c =
     (let cx = real (cols div 2); cy = real (rows div 2);
          xx = (real c - cx) * xs; yy = (real r - cy) * ys
      in sqrt (xx\<^sup>2 + yy\<^sup>2) / 1000)"

text \<open>
  \<^verbatim>\<open>out[np.isnan(phase)] = np.nan\<close>: a mask of another shape than \<open>out\<close> raises
  \<^verbatim>\<open>IndexError\<close>.
\<close>

definition nan_mask :: "grid \<Rightarrow> grid \<Rightarrow> error + grid" where
  "nan_mask out phase =
     (if rows2 phase = rows2 out \<and> cols2 phase = cols2 out
      then Inr (out\<lparr>at2 := (\<lambda>r c. if isnan (at2 phase r c) then NaN else at2 out r c)\<rparr>)
      else Inl IndexError)"

text \<open>\<^verbatim>\<open>_slp_filter\<close>\<close>

definition slp_filter ::
  "grid \<Rightarrow> fl \<Rightarrow> nat \<Rightarrow> nat \<Rightarrow> real \<Rightarrow> real \<Rightarrow> params \<Rightarrow> error + grid"
where
  "slp_filter phase cutoff rows cols xs ys p =
     (let imf = fftshift (fft2 phase);
          H = \<lparr>rows2 = rows, cols2 = cols,
               at2 = (\<lambda>r c. slp_transfer p cutoff (slp_dist rows cols xs ys r c))\<rparr>
      in case spectrum_times imf H of
           Inl e \<Rightarrow> Inl e
         | Inr outf \<Rightarrow> nan_mask (np_real (ifft2 (ifftshift outf))) phase)"

text \<open>
  \<^verbatim>\<open>_slpfilter\<close>. \<^verbatim>\<open>cvd_from_phase\<close> is a parameter that returns the fitted \<open>alpha\<close>;
  \<open>r_dist\<close> is whatever \<^verbatim>\<open>RDist(ifg)()\<close> returned.
\<close>

definition all_nan :: "grid \<Rightarrow> bool" where
  "all_nan phase = list_all (\<lambda>(r, c). isnan (at2 phase r c)) (positions (rows2 phase) (cols2 phase))"

definition slpfilter ::
  "(grid \<Rightarrow> ifg \<Rightarrow> 'r \<Rightarrow> error + fl) \<Rightarrow> grid \<Rightarrow> ifg \<Rightarrow> 'r \<Rightarrow> params \<Rightarrow> error + grid"
where
  "slpfilter cvd_from_phase phase g r_dist p =
     (if all_nan phase then Inr phase
      else case (if slpf_cutoff p = 0
                 then (case cvd_from_phase phase g r_dist of
                         Inl e \<Rightarrow> Inl e
                       | Inr alpha \<Rightarrow> Inr (fdiv (Fin 1) alpha))
                 else Inr (Fin (slpf_cutoff p))) of
             Inl e \<Rightarrow> Inl e
           | Inr cutoff \<Rightarrow> slp_filter phase cutoff (ifg_rows g) (ifg_cols g) (x_size g) (y_size g) p)"

text \<open>
  \<^verbatim>\<open>spatial_low_pass_filter\<close>. The cube is changed in place and returned; \<open>rdist\<close>
  stands for the class \<^verbatim>\<open>RDist\<close>.
\<close>

definition spatial_low_pass_filter ::
  "griddata_fn \<Rightarrow> (ifg \<Rightarrow> 'r) \<Rightarrow> (grid \<Rightarrow> ifg \<Rightarrow> 'r \<Rightarrow> error + fl) \<Rightarrow>
   cube \<Rightarrow> ifg \<Rightarrow> params \<Rightarrow> error + cube"
where
  "spatial_low_pass_filter griddata rdist cvd_from_phase ts_lp g p =
     (case (if slpf_nanfill p = 0 then Inr (zero_fill3 ts_lp)
            else interpolate_nans griddata ts_lp (slpf_nanfill_method p)) of
        Inl e \<Rightarrow> Inl e
      | Inr filled \<Rightarrow>
          (let r_dist = rdist g
           in for_each [0..<epochs3 filled]
                (\<lambda>i a. case slpfilter cvd_from_phase (slice3 a i) g r_dist p of
                          Inl e \<Rightarrow> Inl e
                        | Inr out \<Rightarrow> set_slice3 a i out)
                filled))"

text \<open>A cube of one pixel and one epoch that holds NaN, and a matching interferogram.\<close>

definition nan_cube :: cube where
  "nan_cube = \<lparr>rows3 = 1, cols3 = 1, epochs3 = 1, at3 = (\<lambda>i j k. NaN)\<rparr>"

definition one_ifg :: ifg where
  "one_ifg = \<lparr>ifg_rows = 1, ifg_cols = 1, x_size = 90, y_size = 90\<rparr>"

definition gap_cube2 :: cube where
  "gap_cube2 = \<lparr>rows3 = 1, cols3 = 2, epochs3 = 1, at3 = (\<lambda>i j k. if j = 0 then NaN else Fin 5)\<rparr>"

definition two_ifg :: ifg where
  "two_ifg = \<lparr>ifg_rows = 1, ifg_cols = 2, x_size = 90, y_size = 90\<rparr>"

text \<open>A configuration whose two method values are outside the documented ranges.\<close>

definition odd_params :: params where
  "odd_params = w_params\<lparr>tlpf_method := 7, slpf_method := 5\<rparr>"

section \<open>Interferogram files, scratch files and the log\<close>

text \<open>
  The state outside the process: the interferogram rasters by path, the \<^verbatim>\<open>.npy\<close> files
  of the scratch directory by directory, artifact name and tile index, the messages
  logged, and the calls made to the raster layer in their order.
\<close>

record raster =
  phase_data :: grid
  meta_data :: "string \<rightharpoonup> string"
  raster_x_size :: real
  raster_y_size :: real

datatype raster_call =
    Open string bool
  | SetMetadataItem string string string
  | WriteModifiedPhase string
  | Close string

datatype level = INFO | DEBUG

record world =
  rasters :: "string \<rightharpoonup> raster"
  scratch :: "string \<times> string \<times> nat \<rightharpoonup> cube"
  logged :: "(level \<times> string \<times> nat list) list"
  calls :: "raster_call list"

text \<open>A log call: the level, the message or its format string, the format arguments.\<close>

definition log_msg :: "level \<Rightarrow> string \<Rightarrow> nat list \<Rightarrow> world \<Rightarrow> world" where
  "log_msg lvl msg args w = w\<lparr>logged := logged w @ [(lvl, msg, args)]\<rparr>"

text \<open>
  Modelled from the spec: the constants \<^verbatim>\<open>PYRATE_APS_ERROR\<close> and \<^verbatim>\<open>APS_REMOVED\<close> of
  \<^verbatim>\<open>core/ifgconstants.py\<close>, which is not among the sources: the key of the
  correction-status tag and its value "APS-removed".
\<close>

definition PYRATE_APS_ERROR :: string where
  "PYRATE_APS_ERROR = ''PYRATE_APS_ERROR''"

definition APS_REMOVED :: string where
  "APS_REMOVED = ''APS-removed''"

text \<open>A \<^verbatim>\<open>PrereadIfg\<close> and a \<^verbatim>\<open>Tile\<close>, by the attributes that are read.\<close>

record preread_ifg =
  pr_path :: string
  pr_rows :: nat
  pr_cols :: nat
  pr_master :: int
  pr_slave :: int

record tile =
  tile_index :: nat
  top_left_y :: nat
  bottom_right_y :: nat
  top_left_x :: nat
  bottom_right_x :: nat

subsection \<open>The raster layer\<close>

text \<open>
  Modelled from the spec: the class \<^verbatim>\<open>Ifg\<close> of \<^verbatim>\<open>core/shared.py\<close>, which is not among
  the sources. The spec gives its interface: open(path, readonly) returns a raster
  handle exposing the phase array, the shape, the pixel size and a metadata tag
  setter; write-modified-phase(); close(). The handle holds the phase array in memory;
  the tag setter acts on the stored raster; writing stores the array of the handle.
\<close>

record handle =
  h_path :: string
  h_readonly :: bool
  h_phase :: grid
  h_geom :: ifg

definition ifg_open :: "string \<Rightarrow> bool \<Rightarrow> world \<Rightarrow> error + handle \<times> world" where
  "ifg_open path readonly w =
     (case rasters w path of
        None \<Rightarrow> Inl RasterError
      | Some ra \<Rightarrow>
          Inr (\<lparr>h_path = path, h_readonly = readonly, h_phase = phase_data ra,
                h_geom = \<lparr>ifg_rows = rows2 (phase_data ra), ifg_cols = cols2 (phase_data ra),
                          x_size = raster_x_size ra, y_size = raster_y_size ra\<rparr>\<rparr>,
               w\<lparr>calls := calls w @ [Open path readonly]\<rparr>))"

definition set_metadata_item :: "handle \<Rightarrow> string \<Rightarrow> string \<Rightarrow> world \<Rightarrow> error + world" where
  "set_metadata_item h key val w =
     (case rasters w (h_path h) of
        None \<Rightarrow> Inl RasterError
      | Some ra \<Rightarrow>
          Inr (w\<lparr>rasters := (rasters w)(h_path h \<mapsto> ra\<lparr>meta_data := (meta_data ra)(key \<mapsto> val)\<rparr>),
                 calls := calls w @ [SetMetadataItem (h_path h) key val]\<rparr>))"

definition write_modified_phase :: "handle \<Rightarrow> world \<Rightarrow> error + world" where
  "write_modified_phase h w =
     (if h_readonly h then Inl RasterError
      else case rasters w (h_path h) of
             None \<Rightarrow> Inl RasterError
           | Some ra \<Rightarrow>
               Inr (w\<lparr>rasters := (rasters w)(h_path h \<mapsto> ra\<lparr>phase_data := h_phase h\<rparr>),
                      calls := calls w @ [WriteModifiedPhase (h_path h)]\<rparr>))"

definition ifg_close :: "handle \<Rightarrow> world \<Rightarrow> world" where
  "ifg_close h w = w\<lparr>calls := calls w @ [Close (h_path h)]\<rparr>"

text \<open>
  Modelled from the spec: \<^verbatim>\<open>shared.check_correction_status\<close>, which is not among the
  sources. The spec says that the pipeline is skipped if every interferogram already
  carries the "APS-removed" tag; a path without a raster cannot be opened.
\<close>

definition has_tag :: "world \<Rightarrow> string \<Rightarrow> string \<Rightarrow> bool" where
  "has_tag w key path =
     (case rasters w path of None \<Rightarrow> False | Some ra \<Rightarrow> meta_data ra key = Some APS_REMOVED)"

definition check_correction_status :: "world \<Rightarrow> string list \<Rightarrow> string \<Rightarrow> error + bool" where
  "check_correction_status w ifg_paths key =
     (if list_all (\<lambda>p. rasters w p \<noteq> None) ifg_paths
      then Inr (list_all (has_tag w key) ifg_paths)
      else Inl RasterError)"

section \<open>Reconstruction of the interferograms\<close>

text \<open>
  Line 213: \<^verbatim>\<open>np.sum(tsincr[:, :, m:s], axis=2)\<close>. The slice \<^verbatim>\<open>m:s\<close> of an axis of length
  \<open>n\<close> holds the indices from \<open>m\<close> up to, not including, the smaller of \<open>s\<close> and \<open>n\<close>.
\<close>

definition increments :: "cube \<Rightarrow> nat \<Rightarrow> nat \<Rightarrow> nat \<Rightarrow> nat \<Rightarrow> fl list" where
  "increments tsincr r c m s = map (at3 tsincr r c) [m..<min s (epochs3 tsincr)]"

definition reconstruct :: "cube \<Rightarrow> nat \<Rightarrow> nat \<Rightarrow> grid" where
  "reconstruct tsincr m s =
     \<lparr>rows2 = rows3 tsincr, cols2 = cols3 tsincr,
      at2 = (\<lambda>r c. fsum (increments tsincr r c m s))\<rparr>"

text \<open>
  Line 230: \<^verbatim>\<open>data[~np.isnan(data)] = phase[~np.isnan(data)]\<close>. A mask of another shape
  than \<^verbatim>\<open>phase\<close> raises \<^verbatim>\<open>IndexError\<close>.
\<close>

definition overwrite_valid :: "grid \<Rightarrow> grid \<Rightarrow> error + grid" where
  "overwrite_valid data phase =
     (if rows2 phase = rows2 data \<and> cols2 phase = cols2 data
      then Inr (data\<lparr>at2 := (\<lambda>r c. if \<not> isnan (at2 data r c) then at2 phase r c
                                     else at2 data r c)\<rparr>)
      else Inl IndexError)"

text \<open>\<^verbatim>\<open>_save_aps_corrected_phase\<close>\<close>

definition save_aps_corrected_phase :: "string \<Rightarrow> grid \<Rightarrow> world \<Rightarrow> error + world" where
  "save_aps_corrected_phase ifg_path phase w =
     (case ifg_open ifg_path False w of
        Inl e \<Rightarrow> Inl e
      | Inr (h, w1) \<Rightarrow>
          (case overwrite_valid (h_phase h) phase of
             Inl e \<Rightarrow> Inl e
           | Inr data \<Rightarrow>
               (case set_metadata_item (h\<lparr>h_phase := data\<rparr>) PYRATE_APS_ERROR APS_REMOVED w1 of
                  Inl e \<Rightarrow> Inl e
                | Inr w2 \<Rightarrow>
                    (case write_modified_phase (h\<lparr>h_phase := data\<rparr>) w2 of
                       Inl e \<Rightarrow> Inl e
                     | Inr w3 \<Rightarrow> Inr (ifg_close (h\<lparr>h_phase := data\<rparr>) w3)))))"

text \<open>
  \<^verbatim>\<open>_ts_to_ifgs\<close>. The dictionary of pre-read interferograms is a list of pairs with
  distinct keys; \<^verbatim>\<open>get_epochs\<close> of \<^verbatim>\<open>core/algorithm.py\<close> is a parameter that returns the
  spans of the epoch list and the index array \<open>n\<close>.
\<close>

type_synonym get_epochs_fn = "preread_ifg list \<Rightarrow> error + real list \<times> nat list"

definition sorted_values :: "(string \<times> preread_ifg) list \<Rightarrow> preread_ifg list" where
  "sorted_values preread_ifgs = map snd (sort_key fst preread_ifgs)"

definition ts_to_ifgs ::
  "get_epochs_fn \<Rightarrow> cube \<Rightarrow> (string \<times> preread_ifg) list \<Rightarrow> world \<Rightarrow> error + world"
where
  "ts_to_ifgs get_epochs tsincr preread_ifgs w =
     (let w0 = log_msg DEBUG ''Reconstructing interferometric observations from time series'' [] w;
          ifgs = sorted_values preread_ifgs
      in case get_epochs ifgs of
           Inl e \<Rightarrow> Inl e
         | Inr (epochlist, n) \<Rightarrow>
             (let index_master = take (length ifgs) n;
                  index_slave = drop (length ifgs) n
              in for_each (enumerate 0 ifgs)
                   (\<lambda>(i, g) v.
                      case np_get index_master i of
                        Inl e \<Rightarrow> Inl e
                      | Inr m \<Rightarrow>
                          (case np_get index_slave i of
                             Inl e \<Rightarrow> Inl e
                           | Inr s \<Rightarrow>
                               save_aps_corrected_phase (pr_path g) (reconstruct tsincr m s) v))
                   w0))"

section \<open>Assembly of the time series from the tiles\<close>

text \<open>
  Modelled from the spec: \<^verbatim>\<open>merge._assemble_tiles\<close>, which is not among the sources.
  The spec says that assembly copies a tile's persisted result for an epoch index into
  the corresponding sub-region of the full cube, that it fails with
  MissingScratchDataError if the tile's persisted result is absent, and that it fails
  with ShapeMismatchError if the tile's output epoch count disagrees with the broadcast
  value. The fourth argument of the call, \<^verbatim>\<open>tsincr_g[:, :, i]\<close>, is a view: it is
  modelled by the cube it is a view of, whose epoch count is the broadcast value, and
  the index \<open>i\<close>. The scratch file is the one of the tile's index.
\<close>

definition assemble_tiles ::
  "nat \<Rightarrow> nat \<Rightarrow> tile \<Rightarrow> cube \<Rightarrow> string \<Rightarrow> string \<Rightarrow> world \<Rightarrow> error + cube"
where
  "assemble_tiles i n t tsincr_g output_dir outtype w =
     (case scratch w (output_dir, outtype, tile_index t) of
        None \<Rightarrow> Inl MissingScratchDataError
      | Some part \<Rightarrow>
          if epochs3 part \<noteq> epochs3 tsincr_g then Inl ShapeMismatchError
          else Inr (tsincr_g\<lparr>at3 := (\<lambda>r c k.
                      if k = i \<and> top_left_y t \<le> r \<and> r < bottom_right_y t
                              \<and> top_left_x t \<le> c \<and> c < bottom_right_x t
                      then at3 part (r - top_left_y t) (c - top_left_x t) i
                      else at3 tsincr_g r c k)\<rparr>))"

text \<open>
  \<^verbatim>\<open>_assemble_tsincr\<close>. \<open>uninit\<close> is the content of the array that \<^verbatim>\<open>np.empty\<close> returns;
  \<open>nvels\<close> is \<open>None\<close> when no tile set it.
\<close>

definition assemble_tsincr ::
  "cells3 \<Rightarrow> string list \<Rightarrow> params \<Rightarrow> (string \<times> preread_ifg) list \<Rightarrow> tile list \<Rightarrow> nat option \<Rightarrow>
   world \<Rightarrow> error + cube"
where
  "assemble_tsincr uninit ifg_paths p preread_ifgs tiles nvels w =
     (case np_get ifg_paths 0 of
        Inl e \<Rightarrow> Inl e
      | Inr path0 \<Rightarrow>
          (case map_of preread_ifgs path0 of
             None \<Rightarrow> Inl KeyError
           | Some g \<Rightarrow>
               (case nvels of
                  None \<Rightarrow> Inl TypeError
                | Some nv \<Rightarrow>
                    for_each [0..<nv]
                      (\<lambda>i. for_each (enumerate 0 tiles)
                              (\<lambda>(n, t) tsincr_g.
                                 assemble_tiles i n t tsincr_g (tmpdir p) ''tsincr_aps'' w))
                      \<lparr>rows3 = pr_rows g, cols3 = pr_cols g, epochs3 = nv, at3 = uninit\<rparr>)))"

section \<open>The pipeline\<close>

text \<open>
  The collaborators that are outside \<^verbatim>\<open>core/aps.py\<close> and are called through their
  interface: \<^verbatim>\<open>get_epochs\<close>, \<^verbatim>\<open>griddata\<close>, \<^verbatim>\<open>RDist\<close>, \<^verbatim>\<open>cvd_from_phase\<close>,
  \<^verbatim>\<open>mpiops.array_split\<close> (the tiles of this worker), the solver \<^verbatim>\<open>time_series\<close> applied
  to the parts of the interferograms in a tile, and the content of a fresh \<^verbatim>\<open>np.empty\<close>
  array. The model is the run of the coordinating worker: \<^verbatim>\<open>run_once\<close> calls the
  function and \<^verbatim>\<open>bcast\<close> returns its own value there.
\<close>

record 'r collab =
  env_get_epochs :: get_epochs_fn
  env_griddata :: griddata_fn
  env_rdist :: "ifg \<Rightarrow> 'r"
  env_cvd_from_phase :: "grid \<Rightarrow> ifg \<Rightarrow> 'r \<Rightarrow> error + fl"
  env_array_split :: "tile list \<Rightarrow> tile list"
  env_time_series ::
    "string list \<Rightarrow> tile \<Rightarrow> (string \<times> preread_ifg) list \<Rightarrow> params \<Rightarrow> params \<Rightarrow> cube \<Rightarrow> world \<Rightarrow>
     error + cube"
  env_uninit :: cells3

text \<open>The body of the loop of lines 149 to 155: the state is the world and \<open>nvels\<close>.\<close>

definition calc_tile ::
  "'r collab \<Rightarrow> string list \<Rightarrow> params \<Rightarrow> params \<Rightarrow> (string \<times> preread_ifg) list \<Rightarrow> tile \<Rightarrow>
   world \<times> nat option \<Rightarrow> error + world \<times> nat option"
where
  "calc_tile env ifg_paths p new_params preread_ifgs t st =
     (let w1 = log_msg DEBUG ''Calculating time series for tile {} during APS correction''
                 [tile_index t] (fst st)
      in case scratch w1 (tmpdir p, ''mst_mat'', tile_index t) of
           None \<Rightarrow> Inl FileNotFoundError
         | Some mst_tile \<Rightarrow>
             (case env_time_series env ifg_paths t preread_ifgs p new_params mst_tile w1 of
                Inl e \<Rightarrow> Inl e
              | Inr tsincr \<Rightarrow>
                  Inr (w1\<lparr>scratch := (scratch w1)((tmpdir p, ''tsincr_aps'', tile_index t) \<mapsto> tsincr)\<rparr>,
                       Some (epochs3 tsincr))))"

text \<open>\<^verbatim>\<open>_calc_svd_time_series\<close>\<close>

definition calc_svd_time_series ::
  "'r collab \<Rightarrow> string list \<Rightarrow> params \<Rightarrow> (string \<times> preread_ifg) list \<Rightarrow> tile list \<Rightarrow> world \<Rightarrow>
   error + cube \<times> world"
where
  "calc_svd_time_series env ifg_paths p preread_ifgs tiles w =
     (let w0 = log_msg INFO ''Calculating time series via SVD method for APS correction'' [] w;
          new_params = p\<lparr>time_series_method := 2\<rparr>;
          process_tiles = env_array_split env tiles
      in case for_each process_tiles (calc_tile env ifg_paths p new_params preread_ifgs)
                (w0, None) of
           Inl e \<Rightarrow> Inl e
         | Inr (w1, nvels) \<Rightarrow>
             (case assemble_tsincr (env_uninit env) ifg_paths p preread_ifgs tiles nvels w1 of
                Inl e \<Rightarrow> Inl e
              | Inr tsincr_g \<Rightarrow>
                  Inr (tsincr_g,
                       log_msg DEBUG
                         ''Finished calculating time series for spatio-temporal filter'' [] w1)))"

text \<open>The difference of two cubes of one shape.\<close>

definition cube_sub :: "cube \<Rightarrow> cube \<Rightarrow> error + cube" where
  "cube_sub a b =
     (if rows3 a = rows3 b \<and> cols3 a = cols3 b \<and> epochs3 a = epochs3 b
      then Inr (a\<lparr>at3 := (\<lambda>r c k. fsub (at3 a r c k) (at3 b r c k))\<rparr>)
      else Inl ValueError)"

text \<open>\<^verbatim>\<open>spatio_temporal_filter\<close>\<close>

definition spatio_temporal_filter ::
  "'r collab \<Rightarrow> cube \<Rightarrow> ifg \<Rightarrow> params \<Rightarrow> (string \<times> preread_ifg) list \<Rightarrow> world \<Rightarrow> error + world"
where
  "spatio_temporal_filter env tsincr g p preread_ifgs w =
     (case env_get_epochs env (map snd preread_ifgs) of
        Inl e \<Rightarrow> Inl e
      | Inr (spans, n) \<Rightarrow>
          (case temporal_low_pass_filter tsincr spans p of
             Inl e \<Rightarrow> Inl e
           | Inr ts_lp \<Rightarrow>
               (case cube_sub tsincr ts_lp of
                  Inl e \<Rightarrow> Inl e
                | Inr ts_hp \<Rightarrow>
                    (case spatial_low_pass_filter (env_griddata env) (env_rdist env)
                            (env_cvd_from_phase env) ts_hp g p of
                       Inl e \<Rightarrow> Inl e
                     | Inr ts_aps \<Rightarrow>
                         (case cube_sub tsincr ts_aps of
                            Inl e \<Rightarrow> Inl e
                          | Inr corrected \<Rightarrow>
                              ts_to_ifgs (env_get_epochs env) corrected preread_ifgs w)))))"

text \<open>\<^verbatim>\<open>_wrap_spatio_temporal_filter\<close>\<close>

definition wrap_spatio_temporal_filter ::
  "'r collab \<Rightarrow> string list \<Rightarrow> params \<Rightarrow> tile list \<Rightarrow> (string \<times> preread_ifg) list \<Rightarrow> world \<Rightarrow>
   error + world"
where
  "wrap_spatio_temporal_filter env ifg_paths p tiles preread_ifgs w =
     (if apsest p = 0 then Inr (log_msg INFO ''APS correction not required.'' [] w)
      else
        (let w1 = log_msg DEBUG ''Checking APS correction status'' [] w
         in case check_correction_status w1 ifg_paths PYRATE_APS_ERROR of
              Inl e \<Rightarrow> Inl e
            | Inr True \<Rightarrow> Inr (log_msg DEBUG ''Finished APS correction'' [] w1)
            | Inr False \<Rightarrow>
                (case calc_svd_time_series env ifg_paths p preread_ifgs tiles w1 of
                   Inl e \<Rightarrow> Inl e
                 | Inr (tsincr, w2) \<Rightarrow>
                     (case np_get ifg_paths 0 of
                        Inl e \<Rightarrow> Inl e
                      | Inr path0 \<Rightarrow>
                          (case ifg_open path0 True w2 of
                             Inl e \<Rightarrow> Inl e
                           | Inr (h, w3) \<Rightarrow>
                               (case spatio_temporal_filter env tsincr (h_geom h) p preread_ifgs w3 of
                                  Inl e \<Rightarrow> Inl e
                                | Inr w4 \<Rightarrow> Inr (ifg_close h w4)))))))"

text \<open>A raster of one row and two columns whose cell of column 0 is NaN, and its world.\<close>

definition gap_raster :: raster where
  "gap_raster = \<lparr>phase_data = \<lparr>rows2 = 1, cols2 = 2, at2 = (\<lambda>r c. if c = 0 then NaN else Fin 7)\<rparr>,
                  meta_data = Map.empty, raster_x_size = 90, raster_y_size = 90\<rparr>"

definition gap_world :: world where
  "gap_world = \<lparr>rasters = [''a.tif'' \<mapsto> gap_raster], scratch = Map.empty, logged = [], calls = []\<rparr>"

definition new_phase :: grid where
  "new_phase = \<lparr>rows2 = 1, cols2 = 2, at2 = (\<lambda>r c. Fin 2)\<rparr>"



text \<open>Two interferograms over three epochs, stored under keys in descending order.\<close>

definition ifg_a :: preread_ifg where
  "ifg_a = \<lparr>pr_path = ''a.tif'', pr_rows = 1, pr_cols = 1, pr_master = 0, pr_slave = 12\<rparr>"

definition ifg_b :: preread_ifg where
  "ifg_b = \<lparr>pr_path = ''b.tif'', pr_rows = 1, pr_cols = 1, pr_master = 12, pr_slave = 24\<rparr>"

definition two_preread :: "(string \<times> preread_ifg) list" where
  "two_preread = [(''b.tif'', ifg_b), (''a.tif'', ifg_a)]"

definition one_raster :: raster where
  "one_raster = \<lparr>phase_data = \<lparr>rows2 = 1, cols2 = 1, at2 = (\<lambda>r c. Fin 9)\<rparr>,
                  meta_data = Map.empty, raster_x_size = 90, raster_y_size = 90\<rparr>"




text \<open>Two tiles side by side, and worlds that hold the results of both, of one, or a result with two epochs.\<close>

definition tile0 :: tile where
  "tile0 = \<lparr>tile_index = 0, top_left_y = 0, bottom_right_y = 1, top_left_x = 0, bottom_right_x = 1\<rparr>"







text \<open>The log entries of a run that is skipped.\<close>

definition skip_log :: "params \<Rightarrow> (level \<times> string \<times> nat list) list" where
  "skip_log p =
     (if apsest p = 0 then [(INFO, ''APS correction not required.'', [])]
      else [(DEBUG, ''Checking APS correction status'', []),
            (DEBUG, ''Finished APS correction'', [])])"

text \<open>Collaborators that all fail, a world whose two interferograms carry the tag.\<close>

definition idle_env :: "unit collab" where
  "idle_env = \<lparr>env_get_epochs = (\<lambda>ifgs. Inl ValueError),
               env_griddata = (\<lambda>known vals missing method. Inl ValueError),
               env_rdist = (\<lambda>g. ()),
               env_cvd_from_phase = (\<lambda>phase g r. Inl ValueError),
               env_array_split = (\<lambda>tiles. tiles),
               env_time_series = (\<lambda>paths t preread p new_p mst w. Inl ValueError),
               env_uninit = (\<lambda>r c k. NaN)\<rparr>"

definition tagged_raster :: raster where
  "tagged_raster = one_raster\<lparr>meta_data := [PYRATE_APS_ERROR \<mapsto> APS_REMOVED]\<rparr>"

definition tagged_world :: world where
  "tagged_world = \<lparr>rasters = [''a.tif'' \<mapsto> tagged_raster, ''b.tif'' \<mapsto> tagged_raster],
                    scratch = Map.empty, logged = [], calls = []\<rparr>"



text \<open>A slice of one row and two columns that holds 5 and 7.\<close>

definition pair_grid :: grid where
  "pair_grid = \<lparr>rows2 = 1, cols2 = 2, at2 = (\<lambda>r c. if c = 0 then Fin 5 else Fin 7)\<rparr>"

section \<open>Proofs\<close>

lemma for_each_inv:
  assumes "for_each xs body s = Inr s'" and "P s"
    and "\<And>x t t'. x \<in> set xs \<Longrightarrow> P t \<Longrightarrow> body x t = Inr t' \<Longrightarrow> P t'"
  shows "P s'"
  using assms
proof (induction xs arbitrary: s)
  case Nil
  then show ?case by simp
next
  case (Cons x xs)
  from Cons.prems(1) obtain t where t: "body x s = Inr t" and rest: "for_each xs body t = Inr s'"
    by (auto split: sum.splits)
  have "P t" using Cons.prems(2,3) t by auto
  then show ?case using Cons.IH [OF rest] Cons.prems(3) by auto
qed

lemma for_each_last_write:
  assumes "for_each xs body s = Inr s'" and "x \<in> set xs \<or> Q s"
    and est: "\<And>t t'. body x t = Inr t' \<Longrightarrow> Q t'"
    and pres: "\<And>y t t'. y \<in> set xs \<Longrightarrow> y \<noteq> x \<Longrightarrow> Q t \<Longrightarrow> body y t = Inr t' \<Longrightarrow> Q t'"
  shows "Q s'"
  using assms(1,2) pres
proof (induction xs arbitrary: s)
  case Nil
  then show ?case by simp
next
  case (Cons y ys)
  from Cons.prems(1) obtain t where t: "body y s = Inr t" and rest: "for_each ys body t = Inr s'"
    by (auto split: sum.splits)
  show ?case
  proof (cases "y = x")
    case True
    then have "Q t" using est t by auto
    then show ?thesis using Cons.IH [OF rest] Cons.prems(3) by auto
  next
    case False
    then have "x \<in> set ys \<or> Q t" using Cons.prems(2,3) t by auto
    then show ?thesis using Cons.IH [OF rest] Cons.prems(3) by auto
  qed
qed

lemma for_each_ok:
  assumes "\<And>x t. x \<in> set xs \<Longrightarrow> \<exists>t'. body x t = Inr t'"
  shows "\<exists>s'. for_each xs body s = Inr s'"
  using assms
proof (induction xs arbitrary: s)
  case Nil
  then show ?case by simp
next
  case (Cons x xs)
  then obtain t where "body x s = Inr t" by (meson list.set_intros(1))
  then show ?case using Cons by simp
qed

lemma np_nonzero_distinct: "distinct (np_nonzero b n)"
  by (simp add: np_nonzero_def)

lemma np_nonzero_set: "set (np_nonzero b n) = {k. k < n \<and> b k}"
  by (auto simp: np_nonzero_def)

lemma set3_other: "(a, b, c) \<noteq> (i, j, k) \<Longrightarrow> set3 t i j k v a b c = t a b c"
  by (auto simp: set3_def)

lemma set3_same: "set3 t i j k v i j k = v"
  by (simp add: set3_def)

lemma tlp_step_frame:
  assumes "tlp_step func cutoff spanv ts sel i j k t = Inr t'" and "(a, b, c) \<noteq> (i, j, sel ! k)"
  shows "t' a b c = t a b c"
  using assms by (auto simp: tlp_step_def set3_other split: sum.splits)

lemma tlp_step_value:
  assumes "tlp_step func cutoff spanv ts sel i j k t = Inr t'"
  shows "tlp_value func cutoff spanv ts sel i j k = Inr (t' i j (sel ! k))"
  using assms by (auto simp: tlp_step_def set3_same split: sum.splits)

lemma tlp_pixel_frame:
  assumes "tlp_pixel func cutoff nanmat n spanv thr ts i j t = Inr t'"
    and "(a, b) \<noteq> (i, j) \<or> \<not> thr \<le> int (length (np_nonzero (nanmat i j) n))
           \<or> c \<notin> set (np_nonzero (nanmat i j) n)"
  shows "t' a b c = t a b c"
proof (cases "thr \<le> int (length (np_nonzero (nanmat i j) n))")
  case False
  then show ?thesis using assms(1) by (simp add: tlp_pixel_def Let_def)
next
  case True
  let ?sel = "np_nonzero (nanmat i j) n"
  from True assms(1) have loop:
    "for_each [0..<length ?sel] (tlp_step func cutoff spanv ts ?sel i j) t = Inr t'"
    by (simp add: tlp_pixel_def Let_def)
  have ne: "(a, b, c) \<noteq> (i, j, ?sel ! k)" if "k < length ?sel" for k
    using assms(2) True that by (auto simp: in_set_conv_nth)
  show ?thesis
  proof (rule for_each_inv [OF loop, where P = "\<lambda>u. u a b c = t a b c"])
    show "t a b c = t a b c" by simp
  next
    fix k u u'
    assume k: "k \<in> set [0..<length ?sel]" and u: "u a b c = t a b c"
      and st: "tlp_step func cutoff spanv ts ?sel i j k u = Inr u'"
    from k have "(a, b, c) \<noteq> (i, j, ?sel ! k)" using ne by simp
    from tlp_step_frame [OF st this] u show "u' a b c = t a b c" by simp
  qed
qed

lemma tlp_pixel_value:
  assumes "tlp_pixel func cutoff nanmat n spanv thr ts i j t = Inr t'"
    and "thr \<le> int (length (np_nonzero (nanmat i j) n))"
    and "k < length (np_nonzero (nanmat i j) n)"
  shows "tlp_value func cutoff spanv ts (np_nonzero (nanmat i j) n) i j k
           = Inr (t' i j (np_nonzero (nanmat i j) n ! k))"
proof -
  let ?sel = "np_nonzero (nanmat i j) n"
  from assms(1,2) have loop:
    "for_each [0..<length ?sel] (tlp_step func cutoff spanv ts ?sel i j) t = Inr t'"
    by (simp add: tlp_pixel_def Let_def)
  have d: "?sel ! y \<noteq> ?sel ! k" if "y < length ?sel" "y \<noteq> k" for y
    using that assms(3) np_nonzero_distinct [of "nanmat i j" n] by (simp add: nth_eq_iff_index_eq)
  show ?thesis
  proof (rule for_each_last_write [OF loop, where x = k])
    show "k \<in> set [0..<length ?sel] \<or>
          tlp_value func cutoff spanv ts ?sel i j k = Inr (t i j (?sel ! k))"
      using assms(3) by simp
  next
    fix u u' assume "tlp_step func cutoff spanv ts ?sel i j k u = Inr u'"
    then show "tlp_value func cutoff spanv ts ?sel i j k = Inr (u' i j (?sel ! k))"
      by (rule tlp_step_value)
  next
    fix y u u'
    assume y: "y \<in> set [0..<length ?sel]" "y \<noteq> k"
      and q: "tlp_value func cutoff spanv ts ?sel i j k = Inr (u i j (?sel ! k))"
      and st: "tlp_step func cutoff spanv ts ?sel i j y u = Inr u'"
    have "u' i j (?sel ! k) = u i j (?sel ! k)"
      using tlp_step_frame [OF st, of i j "?sel ! k"] d [of y] y by auto
    then show "tlp_value func cutoff spanv ts ?sel i j k = Inr (u' i j (?sel ! k))"
      using q by simp
  qed
qed

lemma tlp_row_frame:
  assumes "for_each [0..<cols] (tlp_pixel func cutoff nanmat n spanv thr ts i) t = Inr t'"
    and "a \<noteq> i \<or> \<not> b < cols \<or> \<not> thr \<le> int (length (np_nonzero (nanmat a b) n))
           \<or> c \<notin> set (np_nonzero (nanmat a b) n)"
  shows "t' a b c = t a b c"
proof (rule for_each_inv [OF assms(1), where P = "\<lambda>u. u a b c = t a b c"])
  show "t a b c = t a b c" by simp
next
  fix j u u'
  assume j: "j \<in> set [0..<cols]" and u: "u a b c = t a b c"
    and st: "tlp_pixel func cutoff nanmat n spanv thr ts i j u = Inr u'"
  have "(a, b) \<noteq> (i, j) \<or> \<not> thr \<le> int (length (np_nonzero (nanmat i j) n))
          \<or> c \<notin> set (np_nonzero (nanmat i j) n)"
    using assms(2) j by auto
  from tlp_pixel_frame [OF st this] u show "u' a b c = t a b c" by simp
qed

lemma tlp_row_value:
  assumes "for_each [0..<cols] (tlp_pixel func cutoff nanmat n spanv thr ts i) t = Inr t'"
    and "j < cols"
    and "thr \<le> int (length (np_nonzero (nanmat i j) n))"
    and "k < length (np_nonzero (nanmat i j) n)"
  shows "tlp_value func cutoff spanv ts (np_nonzero (nanmat i j) n) i j k
           = Inr (t' i j (np_nonzero (nanmat i j) n ! k))"
proof (rule for_each_last_write [OF assms(1), where x = j])
  show "j \<in> set [0..<cols] \<or>
        tlp_value func cutoff spanv ts (np_nonzero (nanmat i j) n) i j k
          = Inr (t i j (np_nonzero (nanmat i j) n ! k))"
    using assms(2) by simp
next
  fix u u' assume "tlp_pixel func cutoff nanmat n spanv thr ts i j u = Inr u'"
  from tlp_pixel_value [OF this assms(3,4)]
  show "tlp_value func cutoff spanv ts (np_nonzero (nanmat i j) n) i j k
          = Inr (u' i j (np_nonzero (nanmat i j) n ! k))" .
next
  fix y u u'
  assume y: "y \<in> set [0..<cols]" "y \<noteq> j"
    and q: "tlp_value func cutoff spanv ts (np_nonzero (nanmat i j) n) i j k
              = Inr (u i j (np_nonzero (nanmat i j) n ! k))"
    and st: "tlp_pixel func cutoff nanmat n spanv thr ts i y u = Inr u'"
  have "u' i j (np_nonzero (nanmat i j) n ! k) = u i j (np_nonzero (nanmat i j) n ! k)"
    using tlp_pixel_frame [OF st, of i j] y by auto
  then show "tlp_value func cutoff spanv ts (np_nonzero (nanmat i j) n) i j k
               = Inr (u' i j (np_nonzero (nanmat i j) n ! k))"
    using q by simp
qed

lemma tlpfilter_frame:
  assumes "tlpfilter cols cutoff nanmat n rows spanv thr t ts func = Inr t'"
    and "\<not> a < rows \<or> \<not> b < cols \<or> \<not> thr \<le> int (length (np_nonzero (nanmat a b) n))
           \<or> c \<notin> set (np_nonzero (nanmat a b) n)"
  shows "t' a b c = t a b c"
proof (rule for_each_inv [OF assms(1) [unfolded tlpfilter_def], where P = "\<lambda>u. u a b c = t a b c"])
  show "t a b c = t a b c" by simp
next
  fix i u u'
  assume i: "i \<in> set [0..<rows]" and u: "u a b c = t a b c"
    and st: "for_each [0..<cols] (tlp_pixel func cutoff nanmat n spanv thr ts i) u = Inr u'"
  have "a \<noteq> i \<or> \<not> b < cols \<or> \<not> thr \<le> int (length (np_nonzero (nanmat a b) n))
          \<or> c \<notin> set (np_nonzero (nanmat a b) n)"
    using assms(2) i by auto
  from tlp_row_frame [OF st this] u show "u' a b c = t a b c" by simp
qed

lemma tlpfilter_value:
  assumes "tlpfilter cols cutoff nanmat n rows spanv thr t ts func = Inr t'"
    and "i < rows" and "j < cols"
    and "thr \<le> int (length (np_nonzero (nanmat i j) n))"
    and "k < length (np_nonzero (nanmat i j) n)"
  shows "tlp_value func cutoff spanv ts (np_nonzero (nanmat i j) n) i j k
           = Inr (t' i j (np_nonzero (nanmat i j) n ! k))"
proof (rule for_each_last_write [OF assms(1) [unfolded tlpfilter_def], where x = i])
  show "i \<in> set [0..<rows] \<or>
        tlp_value func cutoff spanv ts (np_nonzero (nanmat i j) n) i j k
          = Inr (t i j (np_nonzero (nanmat i j) n ! k))"
    using assms(2) by simp
next
  fix u u'
  assume "for_each [0..<cols] (tlp_pixel func cutoff nanmat n spanv thr ts i) u = Inr u'"
  from tlp_row_value [OF this assms(3,4,5)]
  show "tlp_value func cutoff spanv ts (np_nonzero (nanmat i j) n) i j k
          = Inr (u' i j (np_nonzero (nanmat i j) n ! k))" .
next
  fix y u u'
  assume y: "y \<in> set [0..<rows]" "y \<noteq> i"
    and q: "tlp_value func cutoff spanv ts (np_nonzero (nanmat i j) n) i j k
              = Inr (u i j (np_nonzero (nanmat i j) n ! k))"
    and st: "for_each [0..<cols] (tlp_pixel func cutoff nanmat n spanv thr ts y) u = Inr u'"
  have "u' i j (np_nonzero (nanmat i j) n ! k) = u i j (np_nonzero (nanmat i j) n ! k)"
    using tlp_row_frame [OF st, of i] y by auto
  then show "tlp_value func cutoff spanv ts (np_nonzero (nanmat i j) n) i j k
               = Inr (u' i j (np_nonzero (nanmat i j) n ! k))"
    using q by simp
qed

lemma tlp_value_ok:
  assumes "list_all (\<lambda>s. s < length spanv) sel" and "k < length sel" and "kernel_len func"
  shows "\<exists>v. tlp_value func cutoff spanv ts sel i j k = Inr v"
proof -
  from assms(1,2) have "sel ! k < length spanv" by (simp add: list_all_length)
  moreover have "length (func (length sel) (map (\<lambda>x. x - spanv ! (sel ! k)) (map ((!) spanv) sel)) cutoff)
       = length sel"
    using assms(3) [unfolded kernel_len_def, rule_format,
        of "map (\<lambda>x. x - spanv ! (sel ! k)) (map ((!) spanv) sel)" cutoff] by simp
  ultimately show ?thesis using assms(1,2)
    by (simp add: tlp_value_def weights_def np_take_def np_get_def np_binop_def normalise_def)
qed

lemma tlpfilter_ok:
  assumes "n \<le> length spanv" and "kernel_len func"
  shows "\<exists>t'. tlpfilter cols cutoff nanmat n rows spanv thr t ts func = Inr t'"
  unfolding tlpfilter_def
proof (rule for_each_ok, rule for_each_ok)
  fix i j u
  let ?sel = "np_nonzero (nanmat i j) n"
  have all: "list_all (\<lambda>s. s < length spanv) ?sel"
    using assms(1) by (auto simp: list_all_iff np_nonzero_set)
  have "\<exists>u'. for_each [0..<length ?sel] (tlp_step func cutoff spanv ts ?sel i j) u = Inr u'"
  proof (rule for_each_ok)
    fix k w assume "k \<in> set [0..<length ?sel]"
    then have "k < length ?sel" by simp
    from tlp_value_ok [OF all this assms(2), of cutoff ts i j]
    obtain v where "tlp_value func cutoff spanv ts ?sel i j k = Inr v" by blast
    then show "\<exists>w'. tlp_step func cutoff spanv ts ?sel i j k w = Inr w'"
      by (simp add: tlp_step_def)
  qed
  then show "\<exists>u'. tlp_pixel func cutoff nanmat n spanv thr ts i j u = Inr u'"
    by (simp add: tlp_pixel_def Let_def)
qed

lemma kernel_len_tlpf_func: "kernel_len (tlpf_func method)"
  by (simp add: kernel_len_def tlpf_func_def gauss_def triangle_def mean_filter_def)

lemma tlpf_span_ok:
  assumes "length spans = Suc n"
  shows "\<exists>spanv. tlpf_span n spans = Inr spanv \<and> length spanv = n"
  using assms by (simp add: tlpf_span_def np_binop_def np_diff_def)

lemma fsum_Fin: "fsum (map Fin rs) = Fin (sum_list rs)"
  by (induction rs) auto

lemma normalise_Fin:
  assumes "sum_list rs \<noteq> 0"
  shows "normalise (map Fin rs) = map Fin (map (\<lambda>r. r / sum_list rs) rs)"
  using assms by (simp add: normalise_def fsum_Fin fdiv_def isnan_def finfinite_def)

lemma sum_list_div: "sum_list (map (\<lambda>r. r / c) rs) = sum_list rs / (c::real)"
  by (induction rs) (auto simp: add_divide_distrib)

lemma sum_list_pos_nth:
  assumes "\<forall>r \<in> set rs. (0::real) \<le> r" and "k < length rs" and "0 < rs ! k"
  shows "0 < sum_list rs"
proof -
  have "rs ! k \<le> sum_list rs"
    using assms(1,2) by (simp add: member_le_sum_list)
  then show ?thesis using assms(3) by linarith
qed

lemma gauss_Fin:
  assumes "cutoff \<noteq> 0"
  shows "gauss m yr cutoff = map Fin (map (\<lambda>y. exp (- ((y / cutoff)\<^sup>2) / 2)) yr)"
  using assms
  by (simp add: gauss_def fdiv_def fmul_def isnan_def finfinite_def numeral_2_eq_2 power2_eq_square)

lemma triangle_Fin:
  "triangle m yr cutoff = map Fin (map (\<lambda>y. if cutoff - \<bar>y\<bar> < 0 then 0 else cutoff - \<bar>y\<bar>) yr)"
  by (simp add: triangle_def Let_def)

lemma mean_filter_Fin: "mean_filter m yr cutoff = map Fin (replicate m 1)"
  by (simp add: mean_filter_def)

text \<open>The raw kernel weights are finite, non-negative, and positive at offset zero.\<close>

lemma kernel_raw:
  assumes "kernel_ok method cutoff" and "k < length yr" and "yr ! k = 0"
  shows "\<exists>rs. tlpf_func method (length yr) yr cutoff = map Fin rs \<and> length rs = length yr
           \<and> (\<forall>r \<in> set rs. 0 \<le> r) \<and> 0 < rs ! k"
proof -
  consider "method = 1" | "method \<noteq> 1" "method = 2" | "method \<noteq> 1" "method \<noteq> 2" by blast
  then show ?thesis
  proof cases
    case 1
    then have c: "cutoff \<noteq> 0" using assms(1) by (simp add: kernel_ok_def)
    show ?thesis
      using 1 assms(2,3) gauss_Fin [OF c, of "length yr" yr]
      by (intro exI [of _ "map (\<lambda>y. exp (- ((y / cutoff)\<^sup>2) / 2)) yr"])
         (auto simp: tlpf_func_def)
  next
    case 2
    then have c: "0 < cutoff" using assms(1) by (simp add: kernel_ok_def)
    show ?thesis
      using 2 assms(2,3) c triangle_Fin [of "length yr" yr cutoff]
      by (intro exI [of _ "map (\<lambda>y. if cutoff - \<bar>y\<bar> < 0 then 0 else cutoff - \<bar>y\<bar>) yr"])
         (auto simp: tlpf_func_def)
  next
    case 3
    show ?thesis
      using 3 assms(2) mean_filter_Fin [of "length yr" yr cutoff]
      by (intro exI [of _ "replicate (length yr) 1"]) (auto simp: tlpf_func_def)
  qed
qed

lemma weights_unit:
  assumes "kernel_ok method cutoff" and "k < length sel"
    and "list_all (\<lambda>s. s < length spanv) sel"
  shows "\<exists>ws. weights (tlpf_func method) cutoff spanv sel k = Inr (map Fin ws)
           \<and> length ws = length sel \<and> sum_list ws = 1"
proof -
  let ?yr = "map (\<lambda>x. x - spanv ! (sel ! k)) (map ((!) spanv) sel)"
  have sk: "sel ! k < length spanv" using assms(2,3) by (simp add: list_all_length)
  have w: "weights (tlpf_func method) cutoff spanv sel k
             = Inr (normalise (tlpf_func method (length sel) ?yr cutoff))"
    using assms(2,3) sk by (simp add: weights_def np_take_def np_get_def)
  have "k < length ?yr" "?yr ! k = 0" using assms(2) by simp_all
  from kernel_raw [OF assms(1) this]
  obtain rs where rs: "tlpf_func method (length sel) ?yr cutoff = map Fin rs"
    "length rs = length sel" "\<forall>r \<in> set rs. 0 \<le> r" "0 < rs ! k"
    by auto
  have pos: "0 < sum_list rs" using sum_list_pos_nth [OF rs(3) _ rs(4)] rs(2) assms(2) by simp
  then have n: "normalise (map Fin rs) = map Fin (map (\<lambda>r. r / sum_list rs) rs)"
    by (intro normalise_Fin) simp
  show ?thesis
    using w rs(1,2) n pos
    by (intro exI [of _ "map (\<lambda>r. r / sum_list rs) rs"]) (simp add: sum_list_div)
qed

lemma tlpf_run:
  assumes "length spans = Suc (epochs3 ts)"
  obtains out spanv where
    "tlpf_span (epochs3 ts) spans = Inr spanv" and "length spanv = epochs3 ts"
    and "temporal_low_pass_filter ts spans p = Inr (ts\<lparr>at3 := out\<rparr>)"
    and "tlpfilter (cols3 ts) (tlpf_cutoff p) (\<lambda>i j k. \<not> isnan (at3 ts i j k)) (epochs3 ts)
           (rows3 ts) spanv (tlpf_pthr p) (\<lambda>i j k. NaN) (at3 ts) (tlpf_func (tlpf_method p))
         = Inr out"
proof -
  from tlpf_span_ok [OF assms] obtain spanv where
    sp: "tlpf_span (epochs3 ts) spans = Inr spanv" "length spanv = epochs3 ts" by blast
  from tlpfilter_ok [of "epochs3 ts" spanv "tlpf_func (tlpf_method p)"] sp(2) kernel_len_tlpf_func
  obtain out where
    out: "tlpfilter (cols3 ts) (tlpf_cutoff p) (\<lambda>i j k. \<not> isnan (at3 ts i j k)) (epochs3 ts)
           (rows3 ts) spanv (tlpf_pthr p) (\<lambda>i j k. NaN) (at3 ts) (tlpf_func (tlpf_method p))
         = Inr out"
    by (metis order_refl)
  have "temporal_low_pass_filter ts spans p = Inr (ts\<lparr>at3 := out\<rparr>)"
    using sp(1) out by (simp add: temporal_low_pass_filter_def)
  then show ?thesis using that sp out by blast
qed

text \<open>
  Claim C5. A pixel with fewer valid (non-NaN) epochs than the configured threshold
  \<^verbatim>\<open>TLPF_PTHR\<close> is not filtered: the temporal low-pass filter returns a cube, not an
  error, and the pixel's whole series in it is NaN.
\<close>

theorem temporal_filter_below_threshold:
  assumes "length spans = Suc (epochs3 tsincr)"
    and "i < rows3 tsincr" and "j < cols3 tsincr"
    and "int (length (valid_epochs tsincr i j)) < tlpf_pthr p"
  shows "\<exists>out. temporal_low_pass_filter tsincr spans p = Inr out
           \<and> (\<forall>k. at3 out i j k = NaN)"
proof -
  from tlpf_run [OF assms(1), of p] obtain out spanv where
    r: "temporal_low_pass_filter tsincr spans p = Inr (tsincr\<lparr>at3 := out\<rparr>)"
    and f: "tlpfilter (cols3 tsincr) (tlpf_cutoff p) (\<lambda>i j k. \<not> isnan (at3 tsincr i j k))
           (epochs3 tsincr) (rows3 tsincr) spanv (tlpf_pthr p) (\<lambda>i j k. NaN) (at3 tsincr)
           (tlpf_func (tlpf_method p)) = Inr out"
    by blast
  have "out i j k = NaN" for k
    using tlpfilter_frame [OF f, of i j k] assms(4) by (simp add: valid_epochs_def)
  then show ?thesis using r by simp
qed

lemma valid_epochs_w_gap_cube: "valid_epochs w_gap_cube 0 0 = [1]"
  by (simp add: valid_epochs_def w_gap_cube_def np_nonzero_def isnan_def upt_rec)

lemma valid_epochs_w_cube: "valid_epochs w_cube 0 0 = [0, 1]"
  by (simp add: valid_epochs_def w_cube_def np_nonzero_def isnan_def upt_rec)

theorem temporal_filter_below_threshold_witness:
  "length [0, 1, 2 :: real] = Suc (epochs3 w_gap_cube) \<and> 0 < rows3 w_gap_cube
   \<and> 0 < cols3 w_gap_cube \<and> int (length (valid_epochs w_gap_cube 0 0)) < tlpf_pthr w_params
   \<and> (\<exists>out. temporal_low_pass_filter w_gap_cube [0, 1, 2] w_params = Inr out
          \<and> (\<forall>k. at3 out 0 0 k = NaN))"
proof -
  have h: "length [0, 1, 2 :: real] = Suc (epochs3 w_gap_cube)" "0 < rows3 w_gap_cube"
    "0 < cols3 w_gap_cube" "int (length (valid_epochs w_gap_cube 0 0)) < tlpf_pthr w_params"
    by (simp_all add: valid_epochs_w_gap_cube) (simp_all add: w_gap_cube_def w_params_def)
  from temporal_filter_below_threshold [OF h] h show ?thesis by blast
qed


lemma map2_fmul_Fin: "map2 fmul (map Fin rs) (map Fin ws) = map Fin (map2 (*) rs ws)"
proof (induction rs arbitrary: ws)
  case Nil
  then show ?case by simp
next
  case (Cons r rs)
  then show ?case by (cases ws) (auto simp: fmul_def)
qed

lemma tlp_value_weighted:
  assumes "weights func cutoff spanv sel k = Inr wgt" and "length wgt = length sel"
  shows "tlp_value func cutoff spanv ts sel i j k = Inr (fsum (map2 fmul (map (ts i j) sel) wgt))"
  using assms by (simp add: tlp_value_def np_binop_def)



lemma w_cube_shape: "rows3 w_cube = 1" "cols3 w_cube = 1" "epochs3 w_cube = 2"
  by (simp_all add: w_cube_def)


lemmas tlpf_eval = temporal_low_pass_filter_def tlpf_span_def np_diff_def np_binop_def
  tlpfilter_def tlp_pixel_def np_nonzero_def isnan_def upt_rec tlp_step_def tlp_value_def
  weights_def np_take_def np_get_def normalise_def tlpf_func_def mean_filter_def triangle_def
  fdiv_def fmul_def set3_def finfinite_def fzero_def finf_def


text \<open>
  Claim C4, as amended. For a pixel with at least the threshold of valid epochs and
  each of its valid epochs \<open>k\<close>, under a configuration in which the kernel weights have
  a non-zero sum (\<open>kernel_ok\<close>: the mean kernel, the Gaussian kernel with a cutoff other
  than zero, the triangular kernel with a positive cutoff), the weight vector that the
  temporal filter applies sums to 1, and the output at that epoch is the sum of the
  pixel's valid input values multiplied by these weights.
\<close>

theorem temporal_weights_sum_to_one:
  assumes "length spans = Suc (epochs3 tsincr)"
    and "i < rows3 tsincr" and "j < cols3 tsincr"
    and "tlpf_pthr p \<le> int (length (valid_epochs tsincr i j))"
    and "k < length (valid_epochs tsincr i j)"
    and "kernel_ok (tlpf_method p) (tlpf_cutoff p)"
  shows "\<exists>out spanv wgt.
           temporal_low_pass_filter tsincr spans p = Inr out
           \<and> tlpf_span (epochs3 tsincr) spans = Inr spanv
           \<and> weights (tlpf_func (tlpf_method p)) (tlpf_cutoff p) spanv
                (valid_epochs tsincr i j) k = Inr wgt
           \<and> length wgt = length (valid_epochs tsincr i j)
           \<and> fsum wgt = Fin 1
           \<and> at3 out i j (valid_epochs tsincr i j ! k)
               = fsum (map2 fmul (map (at3 tsincr i j) (valid_epochs tsincr i j)) wgt)"
proof -
  let ?sel = "np_nonzero (\<lambda>k. \<not> isnan (at3 tsincr i j k)) (epochs3 tsincr)"
  have sel: "valid_epochs tsincr i j = ?sel" by (simp add: valid_epochs_def)
  from tlpf_run [OF assms(1), of p] obtain out spanv where
    sp: "tlpf_span (epochs3 tsincr) spans = Inr spanv" "length spanv = epochs3 tsincr"
    and r: "temporal_low_pass_filter tsincr spans p = Inr (tsincr\<lparr>at3 := out\<rparr>)"
    and f: "tlpfilter (cols3 tsincr) (tlpf_cutoff p) (\<lambda>i j k. \<not> isnan (at3 tsincr i j k))
           (epochs3 tsincr) (rows3 tsincr) spanv (tlpf_pthr p) (\<lambda>i j k. NaN) (at3 tsincr)
           (tlpf_func (tlpf_method p)) = Inr out"
    by blast
  have thr: "tlpf_pthr p \<le> int (length ?sel)" and k: "k < length ?sel"
    using assms(4,5) by (simp_all add: sel)
  have inside: "list_all (\<lambda>s. s < length spanv) ?sel"
    by (auto simp: list_all_iff np_nonzero_set sp(2))
  from weights_unit [OF assms(6) k inside] obtain ws where
    ws: "weights (tlpf_func (tlpf_method p)) (tlpf_cutoff p) spanv ?sel k = Inr (map Fin ws)"
    "length ws = length ?sel" "sum_list ws = 1" by blast
  have one: "fsum (map Fin ws) = Fin 1" by (simp add: fsum_Fin ws(3))
  have len: "length (map Fin ws) = length ?sel" by (simp add: ws(2))
  from tlpfilter_value [OF f assms(2,3) thr k] tlp_value_weighted [OF ws(1) len, of "at3 tsincr" i j]
  have v: "out i j (?sel ! k) = fsum (map2 fmul (map (at3 tsincr i j) ?sel) (map Fin ws))"
    by simp
  show ?thesis
    unfolding sel
    by (intro exI [of _ "tsincr\<lparr>at3 := out\<rparr>"] exI [of _ spanv] exI [of _ "map Fin ws"])
       (use r sp(1) ws(1) len one v in simp)
qed

theorem temporal_weights_sum_to_one_witness:
  "length [0, 1, 2 :: real] = Suc (epochs3 w_cube) \<and> 0 < rows3 w_cube \<and> 0 < cols3 w_cube
   \<and> tlpf_pthr w_params \<le> int (length (valid_epochs w_cube 0 0))
   \<and> 1 < length (valid_epochs w_cube 0 0)
   \<and> kernel_ok (tlpf_method w_params) (tlpf_cutoff w_params)
   \<and> (\<exists>out wgt.
         temporal_low_pass_filter w_cube [0, 1, 2] w_params = Inr out
         \<and> weights (tlpf_func (tlpf_method w_params)) (tlpf_cutoff w_params) [1 / 2, 3 / 2]
              (valid_epochs w_cube 0 0) 1 = Inr wgt
         \<and> fsum wgt = Fin 1
         \<and> at3 out 0 0 1 = fsum (map2 fmul [Fin 1, Fin 3] wgt))"
proof -
  have h: "length [0, 1, 2 :: real] = Suc (epochs3 w_cube)" "0 < rows3 w_cube"
    "0 < cols3 w_cube" "tlpf_pthr w_params \<le> int (length (valid_epochs w_cube 0 0))"
    "1 < length (valid_epochs w_cube 0 0)"
    "kernel_ok (tlpf_method w_params) (tlpf_cutoff w_params)"
    by (simp_all add: valid_epochs_w_cube)
       (simp_all add: w_cube_def w_params_def kernel_ok_def)
  have sp: "tlpf_span (epochs3 w_cube) [0, 1, 2] = Inr [1 / 2, 3 / 2]"
    by (simp add: w_cube_def tlpf_span_def np_binop_def np_diff_def)
  have vals: "map (at3 w_cube 0 0) (valid_epochs w_cube 0 0) = [Fin 1, Fin 3]"
    by (simp add: valid_epochs_w_cube) (simp add: w_cube_def)
  from temporal_weights_sum_to_one [OF h] obtain out spanv wgt where
    o: "temporal_low_pass_filter w_cube [0, 1, 2] w_params = Inr out"
    "tlpf_span (epochs3 w_cube) [0, 1, 2] = Inr spanv"
    "weights (tlpf_func (tlpf_method w_params)) (tlpf_cutoff w_params) spanv
       (valid_epochs w_cube 0 0) 1 = Inr wgt"
    "fsum wgt = Fin 1"
    "at3 out 0 0 (valid_epochs w_cube 0 0 ! 1)
       = fsum (map2 fmul (map (at3 w_cube 0 0) (valid_epochs w_cube 0 0)) wgt)"
    by blast
  from o(2) sp have s: "spanv = [1 / 2, 3 / 2]" by simp
  have idx: "valid_epochs w_cube 0 0 ! 1 = 1" by (simp add: valid_epochs_w_cube)
  from o(1,3,4,5) have
    "temporal_low_pass_filter w_cube [0, 1, 2] w_params = Inr out
     \<and> weights (tlpf_func (tlpf_method w_params)) (tlpf_cutoff w_params) [1 / 2, 3 / 2]
          (valid_epochs w_cube 0 0) 1 = Inr wgt
     \<and> fsum wgt = Fin 1
     \<and> at3 out 0 0 1 = fsum (map2 fmul [Fin 1, Fin 3] wgt)"
    by (simp only: s idx vals)
  then show ?thesis using h by blast
qed

theorem temporal_weights_sum_to_one_counterexample:
  "tlpf_pthr w_tri0_params \<le> int (length (valid_epochs w_cube 0 0))
   \<and> tlpf_span (epochs3 w_cube) [0, 1, 2] = Inr [1 / 2, 3 / 2]
   \<and> weights (tlpf_func (tlpf_method w_tri0_params)) (tlpf_cutoff w_tri0_params) [1 / 2, 3 / 2]
        (valid_epochs w_cube 0 0) 0 = Inr [NaN, NaN]
   \<and> fsum [NaN, NaN] \<noteq> Fin 1"
proof -
  have a: "tlpf_pthr w_tri0_params \<le> int (length (valid_epochs w_cube 0 0))"
    by (simp add: valid_epochs_w_cube w_tri0_params_def w_params_def)
  have b: "tlpf_span (epochs3 w_cube) [0, 1, 2] = Inr [1 / 2, 3 / 2]"
    by (simp add: w_cube_def tlpf_span_def np_binop_def np_diff_def)
  have c: "weights (tlpf_func (tlpf_method w_tri0_params)) (tlpf_cutoff w_tri0_params)
        [1 / 2, 3 / 2] (valid_epochs w_cube 0 0) 0 = Inr [NaN, NaN]"
    by (simp add: valid_epochs_w_cube w_tri0_params_def w_params_def tlpf_eval)
  have d: "fsum [NaN, NaN] \<noteq> Fin 1" by simp
  from a b c d show ?thesis by blast
qed

lemmas slpf_eval = spatial_low_pass_filter_def zero_fill3_def
      isnan_def upt_rec slpfilter_def all_nan_def positions_def slice3_def slp_filter_def
      fft2_def fftshift_def isfin_def fval_def twiddle_def spectrum_times_def bcast_dims_def
      bidx_def cmul_def slp_transfer_def gaussian_def slp_dist_def fmul_def fdiv_def
      finfinite_def numeral_2_eq_2 ifftshift_def ifft2_def np_real_def nan_mask_def
      set_slice3_def bcast_to_def

text \<open>The slice routines themselves keep the NaN cells of the slice they are given.\<close>

lemma slp_filter_keeps_nan:
  assumes "slp_filter phase cutoff rows cols xs ys p = Inr out" and "isnan (at2 phase r c)"
  shows "isnan (at2 out r c)"
  using assms
  by (auto simp: slp_filter_def Let_def nan_mask_def isnan_def split: sum.splits if_splits)

lemma slpfilter_all_nan:
  assumes "all_nan phase"
  shows "slpfilter cvd_from_phase phase g r_dist p = Inr phase"
  using assms by (simp add: slpfilter_def)

text \<open>After the zero fill of line 262 no cell is NaN.\<close>

lemma zero_fill3_no_nan: "\<not> isnan (at3 (zero_fill3 a) r c k)"
  by (simp add: zero_fill3_def isnan_def)

text \<open>
  Claim C1, the code at a failing input. The cube has one row, two columns and one
  epoch; the cell of column 0 is NaN, the other holds 5. With the zero fill
  (\<^verbatim>\<open>SLPF_NANFILL = 0\<close>) and the Gaussian transfer function at a cutoff of 1 km, the
  spatial low-pass filter returns a cube whose cell at the NaN position is not NaN:
  the mask is taken from the slice after it was filled.
\<close>

theorem spatial_filter_fills_nan_pixel:
  "isnan (at3 gap_cube2 0 0 0)
   \<and> (case spatial_low_pass_filter griddata rdist cvd_from_phase gap_cube2 two_ifg w_params of
         Inl e \<Rightarrow> False | Inr out \<Rightarrow> \<not> isnan (at3 out 0 0 0))"
proof -
  have a: "isnan (at3 gap_cube2 0 0 0)" by (simp add: gap_cube2_def isnan_def)
  have b: "case spatial_low_pass_filter griddata rdist cvd_from_phase gap_cube2 two_ifg w_params of
         Inl e \<Rightarrow> False | Inr out \<Rightarrow> \<not> isnan (at3 out 0 0 0)"
    by (simp add: w_params_def gap_cube2_def two_ifg_def slpf_eval)
  from a b show ?thesis by blast
qed

text \<open>
  Claim C6, the code at a failing input. The only slice of the cube is entirely NaN.
  The spatial low-pass filter does not pass it through: the slice it returns is zero,
  not NaN, because the slice routine never sees the NaN values.
\<close>

theorem spatial_filter_zeroes_nan_slice:
  "all_nan (slice3 nan_cube 0)
   \<and> (case spatial_low_pass_filter griddata rdist cvd_from_phase nan_cube one_ifg w_params of
         Inl e \<Rightarrow> False | Inr out \<Rightarrow> at3 out 0 0 0 = Fin 0 \<and> \<not> all_nan (slice3 out 0))"
proof -
  have a: "all_nan (slice3 nan_cube 0)"
    by (simp add: nan_cube_def all_nan_def slice3_def positions_def isnan_def)
  have b: "case spatial_low_pass_filter griddata rdist cvd_from_phase nan_cube one_ifg w_params of
         Inl e \<Rightarrow> False | Inr out \<Rightarrow> at3 out 0 0 0 = Fin 0 \<and> \<not> all_nan (slice3 out 0)"
    by (simp add: w_params_def nan_cube_def one_ifg_def slpf_eval)
  from a b show ?thesis by blast
qed

lemma slp_filter_ok:
  assumes "rows2 phase = rows" and "cols2 phase = cols"
  shows "\<exists>out. slp_filter phase cutoff rows cols xs ys p = Inr out"
  using assms
  by (simp add: slp_filter_def Let_def spectrum_times_def bcast_dims_def fftshift_def fft2_def
      nan_mask_def np_real_def ifft2_def ifftshift_def)

lemma weights_mean:
  assumes "k < length sel" and "list_all (\<lambda>s. s < length spanv) sel"
  shows "weights mean_filter cutoff spanv sel k
           = Inr (map Fin (replicate (length sel) (1 / real (length sel))))"
proof -
  have sk: "sel ! k < length spanv" using assms by (simp add: list_all_length)
  have "weights mean_filter cutoff spanv sel k
          = Inr (normalise (map Fin (replicate (length sel) 1)))"
    using assms sk by (simp add: weights_def np_take_def np_get_def mean_filter_Fin)
  moreover have "sum_list (replicate (length sel) (1::real)) \<noteq> 0"
    using assms(1) by (auto simp: sum_list_replicate)
  then have "normalise (map Fin (replicate (length sel) 1))
               = map Fin (map (\<lambda>r. r / sum_list (replicate (length sel) 1)) (replicate (length sel) 1))"
    by (rule normalise_Fin)
  ultimately show ?thesis by (simp add: sum_list_replicate)
qed

lemma sum_list_scaled:
  "length rs = m \<Longrightarrow> sum_list (map2 (*) rs (replicate m c)) = sum_list rs * (c::real)"
  by (induction rs arbitrary: m) (auto simp: algebra_simps)

lemma mean_value:
  assumes "map (ts i j) sel = map Fin rs" and "k < length sel"
    and "list_all (\<lambda>s. s < length spanv) sel"
  shows "tlp_value mean_filter cutoff spanv ts sel i j k
           = Inr (Fin (sum_list rs / real (length sel)))"
proof -
  let ?ws = "replicate (length sel) (1 / real (length sel))"
  have len: "length rs = length sel" using assms(1) by (metis length_map)
  have "tlp_value mean_filter cutoff spanv ts sel i j k
          = Inr (fsum (map2 fmul (map (ts i j) sel) (map Fin ?ws)))"
    by (rule tlp_value_weighted [OF weights_mean [OF assms(2,3)]]) simp
  also have "\<dots> = Inr (Fin (sum_list (map2 (*) rs ?ws)))"
    by (simp only: assms(1) map2_fmul_Fin fsum_Fin)
  also have "\<dots> = Inr (Fin (sum_list rs / real (length sel)))"
    by (simp add: sum_list_scaled [OF len])
  finally show ?thesis .
qed

text \<open>
  With a method value other than 1 and 2 the output of the temporal filter at a valid
  epoch of a filtered pixel is the arithmetic mean of the valid values of the pixel.
\<close>

lemma tlpf_mean_output:
  assumes "tlpf_method p \<noteq> 1" and "tlpf_method p \<noteq> 2"
    and "length spans = Suc (epochs3 tsincr)"
  shows "\<exists>out. temporal_low_pass_filter tsincr spans p = Inr out
           \<and> (\<forall>i j v k. i < rows3 tsincr \<and> j < cols3 tsincr
                  \<and> tlpf_pthr p \<le> int (card {k'. k' < epochs3 tsincr \<and> at3 tsincr i j k' \<noteq> NaN})
                  \<and> (\<forall>k' < epochs3 tsincr. at3 tsincr i j k' \<noteq> NaN
                         \<longrightarrow> at3 tsincr i j k' = Fin (v k'))
                  \<and> k < epochs3 tsincr \<and> at3 tsincr i j k \<noteq> NaN
                \<longrightarrow> at3 out i j k
                      = Fin ((\<Sum>k' \<in> {k'. k' < epochs3 tsincr \<and> at3 tsincr i j k' \<noteq> NaN}. v k')
                             / real (card {k'. k' < epochs3 tsincr \<and> at3 tsincr i j k' \<noteq> NaN})))"
proof -
  let ?n = "epochs3 tsincr"
  let ?V = "\<lambda>i j. {k'. k' < ?n \<and> at3 tsincr i j k' \<noteq> NaN}"
  from tlpf_run [OF assms(3), of p] obtain out spanv where
    sp: "length spanv = ?n"
    and r: "temporal_low_pass_filter tsincr spans p = Inr (tsincr\<lparr>at3 := out\<rparr>)"
    and f: "tlpfilter (cols3 tsincr) (tlpf_cutoff p) (\<lambda>i j k. \<not> isnan (at3 tsincr i j k))
           ?n (rows3 tsincr) spanv (tlpf_pthr p) (\<lambda>i j k. NaN) (at3 tsincr)
           (tlpf_func (tlpf_method p)) = Inr out"
    by blast
  have mf: "tlpf_func (tlpf_method p) = mean_filter"
    using assms(1,2) by (simp add: tlpf_func_def)
  have key: "out i j k = Fin ((\<Sum>k' \<in> ?V i j. v k') / real (card (?V i j)))"
    if i: "i < rows3 tsincr" and j: "j < cols3 tsincr"
      and thr: "tlpf_pthr p \<le> int (card (?V i j))"
      and fin: "\<forall>k' < ?n. at3 tsincr i j k' \<noteq> NaN \<longrightarrow> at3 tsincr i j k' = Fin (v k')"
      and k: "k < ?n" "at3 tsincr i j k \<noteq> NaN"
    for i j v k
  proof -
    let ?sel = "np_nonzero (\<lambda>k. \<not> isnan (at3 tsincr i j k)) ?n"
    have s: "set ?sel = ?V i j" by (auto simp: np_nonzero_set isnan_def)
    have d: "distinct ?sel" by (rule np_nonzero_distinct)
    have len: "length ?sel = card (?V i j)" using distinct_card [OF d] s by simp
    have thr': "tlpf_pthr p \<le> int (length ?sel)" using thr len by simp
    have inside: "list_all (\<lambda>s. s < length spanv) ?sel"
      by (auto simp: list_all_iff np_nonzero_set sp)
    have "k \<in> set ?sel" using k s by simp
    then obtain q where q: "q < length ?sel" "?sel ! q = k" by (auto simp: in_set_conv_nth)
    have vals: "map (at3 tsincr i j) ?sel = map Fin (map v ?sel)"
      using fin s by auto
    from tlpfilter_value [OF f i j thr' q(1)] q(2) mf
    have "tlp_value mean_filter (tlpf_cutoff p) spanv (at3 tsincr) ?sel i j q = Inr (out i j k)"
      by simp
    with mean_value [where ts = "at3 tsincr" and i = i and j = j and cutoff = "tlpf_cutoff p",
        OF vals q(1) inside]
    have "out i j k = Fin (sum_list (map v ?sel) / real (length ?sel))" by simp
    then show ?thesis
      by (simp add: sum_list_distinct_conv_sum_set [OF d] s len)
  qed
  show ?thesis
    using r key by (intro exI [of _ "tsincr\<lparr>at3 := out\<rparr>"]) simp
qed

lemma sum_list_concat_map:
  fixes g :: "'a \<Rightarrow> complex list"
  shows "sum_list (concat (map g xs)) = sum_list (map (\<lambda>x. sum_list (g x)) xs)"
  by (induction xs) simp_all

lemma sum_list_positions:
  fixes f :: "nat \<Rightarrow> nat \<Rightarrow> complex"
  shows "sum_list (map (\<lambda>(r, c). f r c) (positions R C)) = (\<Sum>r<R. \<Sum>c<C. f r c)"
  by (simp add: positions_def map_concat sum_list_concat_map comp_def
      interv_sum_list_conv_sum_set_nat atLeast0LessThan)

lemma positions_set: "set (positions R C) = {(r, c). r < R \<and> c < C}"
  by (auto simp: positions_def)

lemma shift_back:
  assumes "u < R"
  shows "((u + R div 2) mod R + R - R div 2) mod R = (u::nat)"
proof -
  have h: "R div 2 \<le> R" by simp
  have "((u + R div 2) mod R + R - R div 2) mod R
          = ((u + R div 2) mod R + (R - R div 2)) mod R"
    using h by simp
  also have "\<dots> = (u + R div 2 + (R - R div 2)) mod R" by (rule mod_add_left_eq)
  also have "u + R div 2 + (R - R div 2) = u + R" using h by simp
  also have "(u + R) mod R = u" using assms by simp
  finally show ?thesis .
qed

lemma bidx_inside: "a < d \<Longrightarrow> bidx d a = a"
  by (auto simp: bidx_def)

lemma gaussian_Fin:
  assumes "cf \<noteq> 0"
  shows "gaussian (Fin cf) d = Fin (exp (- (d\<^sup>2) / (2 * cf\<^sup>2)))"
  using assms
  by (simp add: gaussian_def fdiv_def fmul_def isnan_def finfinite_def numeral_2_eq_2
      power2_eq_square)

text \<open>
  With a method value other than 1, on a slice of finite values \<open>x\<close> and with a finite
  cutoff other than zero, \<^verbatim>\<open>_slp_filter\<close> is the Gaussian low-pass filter: the inverse
  transform of the spectrum of the slice multiplied, at each frequency, by the
  Gaussian of the distance of that frequency from the centre of the shifted spectrum.
\<close>

lemma slp_filter_gaussian:
  assumes "slpf_method p \<noteq> 1" and "rows2 phase = R" and "cols2 phase = C" and "cf \<noteq> 0"
    and "\<forall>r<R. \<forall>c<C. at2 phase r c = Fin (x r c)"
  shows "\<exists>out. slp_filter phase (Fin cf) R C xs ys p = Inr out
           \<and> rows2 out = R \<and> cols2 out = C
           \<and> (\<forall>r<R. \<forall>c<C. at2 out r c =
                 Fin (Re ((\<Sum>u<R. \<Sum>v<C.
                        (\<Sum>r'<R. \<Sum>c'<C. of_real (x r' c')
                             * cis (- (2 * pi * (real (u * r') / real R + real (v * c') / real C))))
                        * of_real (exp (- ((sqrt (((real ((v + C div 2) mod C) - real (C div 2)) * xs)\<^sup>2
                                                 + ((real ((u + R div 2) mod R) - real (R div 2)) * ys)\<^sup>2)
                                            / 1000)\<^sup>2) / (2 * cf\<^sup>2)))
                        * cis (2 * pi * (real (u * r) / real R + real (v * c) / real C)))
                      / of_nat (R * C))))"
proof -
  define F :: "nat \<Rightarrow> nat \<Rightarrow> complex" where
    "F = (\<lambda>u v. \<Sum>r'<R. \<Sum>c'<C. of_real (x r' c')
             * cis (- (2 * pi * (real (u * r') / real R + real (v * c') / real C))))"
  define D :: "nat \<Rightarrow> nat \<Rightarrow> real" where
    "D = (\<lambda>a b. sqrt (((real b - real (C div 2)) * xs)\<^sup>2 + ((real a - real (R div 2)) * ys)\<^sup>2) / 1000)"
  define G :: "nat \<Rightarrow> nat \<Rightarrow> complex" where
    "G = (\<lambda>u v. F u v * of_real (exp (- ((D ((u + R div 2) mod R) ((v + C div 2) mod C))\<^sup>2) / (2 * cf\<^sup>2))))"
  let ?H = "\<lparr>rows2 = R, cols2 = C,
             at2 = (\<lambda>r c. slp_transfer p (Fin cf) (slp_dist R C xs ys r c))\<rparr>"
  have fin: "list_all (\<lambda>(r, c). isfin (at2 phase r c)) (positions R C)"
    using assms(5) by (auto simp: list_all_iff positions_set isfin_def)
  have Fsum: "sum_list (map (\<lambda>(r, c). of_real (fval (at2 phase r c)) * cis (- twiddle R C u v r c))
                 (positions R C)) = F u v" for u v
  proof -
    have "map (\<lambda>(r, c). of_real (fval (at2 phase r c)) * cis (- twiddle R C u v r c)) (positions R C)
            = map (\<lambda>(r', c'). of_real (x r' c')
                     * cis (- (2 * pi * (real (u * r') / real R + real (v * c') / real C))))
                (positions R C)"
      using assms(5) by (auto simp: positions_set fval_def twiddle_def)
    then show ?thesis by (simp only: sum_list_positions F_def)
  qed
  have fft: "fft2 phase = \<lparr>crows = R, ccols = C, cat = (\<lambda>u v. Some (F u v))\<rparr>"
    using fin by (simp add: fft2_def Let_def assms(2,3) Fsum)
  have Hval: "at2 ?H a b = Fin (exp (- ((D a b)\<^sup>2) / (2 * cf\<^sup>2)))" for a b
    using assms(1) by (simp add: slp_transfer_def gaussian_Fin [OF assms(4)] slp_dist_def Let_def D_def)
  define outf where
    "outf = \<lparr>crows = R, ccols = C,
             cat = (\<lambda>u v. cmul (cat (fftshift (fft2 phase)) (bidx R u) (bidx C v))
                                (at2 ?H (bidx R u) (bidx C v)))\<rparr>"
  have st: "spectrum_times (fftshift (fft2 phase)) ?H = Inr outf"
    by (simp add: spectrum_times_def bcast_dims_def fftshift_def fft outf_def)
  have shifted: "cat (ifftshift outf) u v = Some (G u v)" if "u < R" "v < C" for u v
  proof -
    have a: "(u + R div 2) mod R < R" "(v + C div 2) mod C < C" using that by simp_all
    have "cat (ifftshift outf) u v
            = cmul (cat (fftshift (fft2 phase)) ((u + R div 2) mod R) ((v + C div 2) mod C))
                   (at2 ?H ((u + R div 2) mod R) ((v + C div 2) mod C))"
      by (simp add: ifftshift_def outf_def bidx_inside [OF a(1)] bidx_inside [OF a(2)])
    also have "cat (fftshift (fft2 phase)) ((u + R div 2) mod R) ((v + C div 2) mod C)
                 = Some (F u v)"
      by (simp add: fftshift_def fft shift_back [OF that(1)] shift_back [OF that(2)])
    finally show ?thesis by (simp only: Hval cmul_def G_def prod.case option.case fl.case)
  qed
  have dims: "crows (ifftshift outf) = R" "ccols (ifftshift outf) = C"
    by (simp_all add: ifftshift_def outf_def)
  have all: "list_all (\<lambda>(u, v). cat (ifftshift outf) u v \<noteq> None) (positions R C)"
    by (auto simp: list_all_iff positions_set shifted)
  have Gsum: "sum_list (map (\<lambda>(u, v). the (cat (ifftshift outf) u v) * cis (twiddle R C u v r c))
                 (positions R C))
               = (\<Sum>u<R. \<Sum>v<C. G u v * cis (2 * pi * (real (u * r) / real R + real (v * c) / real C)))"
    for r c
  proof -
    have "map (\<lambda>(u, v). the (cat (ifftshift outf) u v) * cis (twiddle R C u v r c)) (positions R C)
            = map (\<lambda>(u, v). G u v * cis (2 * pi * (real (u * r) / real R + real (v * c) / real C)))
                (positions R C)"
      by (auto simp: positions_set shifted twiddle_def)
    then show ?thesis by (simp only: sum_list_positions)
  qed
  define Z :: "nat \<Rightarrow> nat \<Rightarrow> complex" where
    "Z = (\<lambda>r c. (\<Sum>u<R. \<Sum>v<C. G u v * cis (2 * pi * (real (u * r) / real R + real (v * c) / real C)))
                 / of_nat (R * C))"
  have inv: "cat (ifft2 (ifftshift outf)) = (\<lambda>r c. Some (Z r c))"
    using all by (simp add: ifft2_def Let_def dims Gsum Z_def)
  have idims: "crows (ifft2 (ifftshift outf)) = R" "ccols (ifft2 (ifftshift outf)) = C"
    by (simp_all add: ifft2_def Let_def dims)
  let ?out = "\<lparr>rows2 = R, cols2 = C,
               at2 = (\<lambda>r c. if isnan (at2 phase r c) then NaN else Fin (Re (Z r c)))\<rparr>"
  have run: "slp_filter phase (Fin cf) R C xs ys p = Inr ?out"
    by (simp add: slp_filter_def Let_def st nan_mask_def np_real_def idims inv assms(2,3)
        cong: if_cong)
  have "at2 ?out r c = Fin (Re (Z r c))" if "r < R" "c < C" for r c
    using assms(5) that by (simp add: isnan_def)
  then have "\<exists>out. slp_filter phase (Fin cf) R C xs ys p = Inr out
           \<and> rows2 out = R \<and> cols2 out = C
           \<and> (\<forall>r<R. \<forall>c<C. at2 out r c = Fin (Re (Z r c)))"
    using run by (intro exI [of _ ?out]) simp
  then show ?thesis unfolding Z_def G_def F_def D_def .
qed

text \<open>
  Claim C10. Neither dispatch rejects a method value. A temporal method value other
  than 1 and 2 selects the mean kernel: whenever the epoch list has one span more than
  the cube has increments, the temporal filter returns a cube, not an error, and in it
  every valid epoch of a pixel that has at least the threshold of valid epochs, all of
  them finite, holds the arithmetic mean of the valid values of that pixel, whatever
  the cutoff and the spans. A spatial method value other than 1 selects the Gaussian
  transfer function: the slice filter returns a slice, not an error, whenever the
  slice has the shape of the interferogram, and on a slice of finite values \<open>x\<close> with
  a finite cutoff \<open>cf\<close> other than zero each cell of the result is the real part of the
  inverse discrete Fourier transform of the spectrum of \<open>x\<close> multiplied, at the
  frequency \<open>(u, v)\<close>, by \<open>exp (- d\<^sup>2 / (2 cf\<^sup>2))\<close>, where \<open>d\<close> is the distance in kilometres
  from the centre of the shifted spectrum of the cell that this frequency is shifted to.
\<close>

theorem filter_method_dispatch:
  "(tlpf_method p \<noteq> 1 \<and> tlpf_method p \<noteq> 2 \<longrightarrow>
      tlpf_func (tlpf_method p) = mean_filter
      \<and> (length spans = Suc (epochs3 tsincr) \<longrightarrow>
           (\<exists>out. temporal_low_pass_filter tsincr spans p = Inr out
              \<and> (\<forall>i j v k. i < rows3 tsincr \<and> j < cols3 tsincr
                     \<and> tlpf_pthr p \<le> int (card {k'. k' < epochs3 tsincr \<and> at3 tsincr i j k' \<noteq> NaN})
                     \<and> (\<forall>k' < epochs3 tsincr. at3 tsincr i j k' \<noteq> NaN
                            \<longrightarrow> at3 tsincr i j k' = Fin (v k'))
                     \<and> k < epochs3 tsincr \<and> at3 tsincr i j k \<noteq> NaN
                   \<longrightarrow> at3 out i j k
                         = Fin ((\<Sum>k' \<in> {k'. k' < epochs3 tsincr \<and> at3 tsincr i j k' \<noteq> NaN}. v k')
                                / real (card {k'. k' < epochs3 tsincr \<and> at3 tsincr i j k' \<noteq> NaN}))))))
   \<and> (slpf_method p \<noteq> 1 \<longrightarrow>
      slp_transfer p cutoff dst = gaussian cutoff dst
      \<and> (rows2 phase = rows \<and> cols2 phase = cols \<longrightarrow>
           (\<exists>out. slp_filter phase cutoff rows cols xs ys p = Inr out))
      \<and> (rows2 phase = rows \<and> cols2 phase = cols \<and> cf \<noteq> 0
            \<and> (\<forall>r<rows. \<forall>c<cols. at2 phase r c = Fin (x r c)) \<longrightarrow>
           (\<exists>out. slp_filter phase (Fin cf) rows cols xs ys p = Inr out
              \<and> rows2 out = rows \<and> cols2 out = cols
              \<and> (\<forall>r<rows. \<forall>c<cols. at2 out r c =
                    Fin (Re ((\<Sum>u<rows. \<Sum>v<cols.
                           (\<Sum>r'<rows. \<Sum>c'<cols. of_real (x r' c')
                                * cis (- (2 * pi * (real (u * r') / real rows
                                                    + real (v * c') / real cols))))
                           * of_real (exp (- ((sqrt (((real ((v + cols div 2) mod cols)
                                                       - real (cols div 2)) * xs)\<^sup>2
                                                    + ((real ((u + rows div 2) mod rows)
                                                        - real (rows div 2)) * ys)\<^sup>2)
                                               / 1000)\<^sup>2) / (2 * cf\<^sup>2)))
                           * cis (2 * pi * (real (u * r) / real rows + real (v * c) / real cols)))
                         / of_nat (rows * cols)))))))"
proof (intro conjI impI)
  assume m: "tlpf_method p \<noteq> 1 \<and> tlpf_method p \<noteq> 2"
  then show "tlpf_func (tlpf_method p) = mean_filter" by (simp add: tlpf_func_def)
  assume "length spans = Suc (epochs3 tsincr)"
  from tlpf_mean_output [OF m [THEN conjunct1] m [THEN conjunct2] this]
  show "\<exists>out. temporal_low_pass_filter tsincr spans p = Inr out
              \<and> (\<forall>i j v k. i < rows3 tsincr \<and> j < cols3 tsincr
                     \<and> tlpf_pthr p \<le> int (card {k'. k' < epochs3 tsincr \<and> at3 tsincr i j k' \<noteq> NaN})
                     \<and> (\<forall>k' < epochs3 tsincr. at3 tsincr i j k' \<noteq> NaN
                            \<longrightarrow> at3 tsincr i j k' = Fin (v k'))
                     \<and> k < epochs3 tsincr \<and> at3 tsincr i j k \<noteq> NaN
                   \<longrightarrow> at3 out i j k
                         = Fin ((\<Sum>k' \<in> {k'. k' < epochs3 tsincr \<and> at3 tsincr i j k' \<noteq> NaN}. v k')
                                / real (card {k'. k' < epochs3 tsincr \<and> at3 tsincr i j k' \<noteq> NaN})))" .
next
  assume "slpf_method p \<noteq> 1"
  then show "slp_transfer p cutoff dst = gaussian cutoff dst" by (simp add: slp_transfer_def)
next
  assume "rows2 phase = rows \<and> cols2 phase = cols"
  then show "\<exists>out. slp_filter phase cutoff rows cols xs ys p = Inr out"
    using slp_filter_ok by blast
next
  assume m: "slpf_method p \<noteq> 1"
    and a: "rows2 phase = rows \<and> cols2 phase = cols \<and> cf \<noteq> 0
            \<and> (\<forall>r<rows. \<forall>c<cols. at2 phase r c = Fin (x r c))"
  from a have a1: "rows2 phase = rows" and a2: "cols2 phase = cols" and a3: "cf \<noteq> 0"
    and a4: "\<forall>r<rows. \<forall>c<cols. at2 phase r c = Fin (x r c)" by simp_all
  from slp_filter_gaussian [OF m a1 a2 a3 a4]
  show "\<exists>out. slp_filter phase (Fin cf) rows cols xs ys p = Inr out
              \<and> rows2 out = rows \<and> cols2 out = cols
              \<and> (\<forall>r<rows. \<forall>c<cols. at2 out r c =
                    Fin (Re ((\<Sum>u<rows. \<Sum>v<cols.
                           (\<Sum>r'<rows. \<Sum>c'<cols. of_real (x r' c')
                                * cis (- (2 * pi * (real (u * r') / real rows
                                                    + real (v * c') / real cols))))
                           * of_real (exp (- ((sqrt (((real ((v + cols div 2) mod cols)
                                                       - real (cols div 2)) * xs)\<^sup>2
                                                    + ((real ((u + rows div 2) mod rows)
                                                        - real (rows div 2)) * ys)\<^sup>2)
                                               / 1000)\<^sup>2) / (2 * cf\<^sup>2)))
                           * cis (2 * pi * (real (u * r) / real rows + real (v * c) / real cols)))
                         / of_nat (rows * cols))))" .
qed

theorem filter_method_dispatch_witness:
  "tlpf_method odd_params \<noteq> 1 \<and> tlpf_method odd_params \<noteq> 2 \<and> slpf_method odd_params \<noteq> 1
   \<and> length [0, 1, 2 :: real] = Suc (epochs3 w_cube)
   \<and> 0 < rows3 w_cube \<and> 0 < cols3 w_cube
   \<and> tlpf_pthr odd_params \<le> int (card {k'. k' < epochs3 w_cube \<and> at3 w_cube 0 0 k' \<noteq> NaN})
   \<and> at3 w_cube 0 0 0 = Fin 1 \<and> at3 w_cube 0 0 1 = Fin 3
   \<and> rows2 pair_grid = 1 \<and> cols2 pair_grid = 2
   \<and> at2 pair_grid 0 0 = Fin 5 \<and> at2 pair_grid 0 1 = Fin 7
   \<and> tlpf_func (tlpf_method odd_params) = mean_filter
   \<and> (\<exists>out. temporal_low_pass_filter w_cube [0, 1, 2] odd_params = Inr out
          \<and> at3 out 0 0 0 = Fin 2 \<and> at3 out 0 0 1 = Fin 2)
   \<and> slp_transfer odd_params (Fin 1) 0 = gaussian (Fin 1) 0
   \<and> (\<exists>out. slp_filter pair_grid (Fin 1) 1 2 90 90 odd_params = Inr out
          \<and> at2 out 0 0 = Fin (6 - exp (- (81 / 20000)))
          \<and> at2 out 0 1 = Fin (6 + exp (- (81 / 20000))))"
proof -
  let ?v = "\<lambda>k'::nat. if k' = 0 then 1 else (3::real)"
  let ?x = "\<lambda>(r::nat) (c::nat). if c = 0 then 5 else (7::real)"
  have h: "tlpf_method odd_params \<noteq> 1 \<and> tlpf_method odd_params \<noteq> 2"
    "slpf_method odd_params \<noteq> 1" "length [0, 1, 2 :: real] = Suc (epochs3 w_cube)"
    by (simp_all add: odd_params_def w_params_def w_cube_def)
  have s: "{k'. k' < epochs3 w_cube \<and> at3 w_cube 0 0 k' \<noteq> NaN} = {0, 1}"
    by (auto simp: w_cube_def)
  have t: "0 < rows3 w_cube" "0 < cols3 w_cube"
    "tlpf_pthr odd_params \<le> int (card {k'. k' < epochs3 w_cube \<and> at3 w_cube 0 0 k' \<noteq> NaN})"
    "\<forall>k' < epochs3 w_cube. at3 w_cube 0 0 k' \<noteq> NaN \<longrightarrow> at3 w_cube 0 0 k' = Fin (?v k')"
    unfolding s by (simp_all add: odd_params_def w_params_def w_cube_def)
  have g: "rows2 pair_grid = 1 \<and> cols2 pair_grid = 2 \<and> (1::real) \<noteq> 0
            \<and> (\<forall>r<1. \<forall>c<2. at2 pair_grid r c = Fin (?x r c))"
    by (simp add: pair_grid_def)
  note inst = filter_method_dispatch [where p = odd_params and tsincr = w_cube
      and spans = "[0, 1, 2]" and cutoff = "Fin 1" and dst = 0 and phase = pair_grid
      and rows = 1 and cols = 2 and xs = 90 and ys = 90 and cf = 1 and x = ?x]
  from inst h(1,3) obtain out where
    o: "tlpf_func (tlpf_method odd_params) = mean_filter"
    "temporal_low_pass_filter w_cube [0, 1, 2] odd_params = Inr out"
    "\<forall>i j v k. i < rows3 w_cube \<and> j < cols3 w_cube
        \<and> tlpf_pthr odd_params \<le> int (card {k'. k' < epochs3 w_cube \<and> at3 w_cube i j k' \<noteq> NaN})
        \<and> (\<forall>k' < epochs3 w_cube. at3 w_cube i j k' \<noteq> NaN \<longrightarrow> at3 w_cube i j k' = Fin (v k'))
        \<and> k < epochs3 w_cube \<and> at3 w_cube i j k \<noteq> NaN
      \<longrightarrow> at3 out i j k
            = Fin ((\<Sum>k' \<in> {k'. k' < epochs3 w_cube \<and> at3 w_cube i j k' \<noteq> NaN}. v k')
                   / real (card {k'. k' < epochs3 w_cube \<and> at3 w_cube i j k' \<noteq> NaN}))"
    by blast
  have k: "0 < epochs3 w_cube \<and> at3 w_cube 0 0 0 \<noteq> NaN"
    "1 < epochs3 w_cube \<and> at3 w_cube 0 0 1 \<noteq> NaN"
    by (simp_all add: w_cube_def)
  have "at3 out 0 0 0 = Fin ((\<Sum>k' \<in> {k'. k' < epochs3 w_cube \<and> at3 w_cube 0 0 k' \<noteq> NaN}. ?v k')
                   / real (card {k'. k' < epochs3 w_cube \<and> at3 w_cube 0 0 k' \<noteq> NaN}))"
    using o(3) [rule_format, of 0 0 ?v 0] t k(1) by blast
  then have o0: "at3 out 0 0 0 = Fin 2" unfolding s by simp
  have "at3 out 0 0 1 = Fin ((\<Sum>k' \<in> {k'. k' < epochs3 w_cube \<and> at3 w_cube 0 0 k' \<noteq> NaN}. ?v k')
                   / real (card {k'. k' < epochs3 w_cube \<and> at3 w_cube 0 0 k' \<noteq> NaN}))"
    using o(3) [rule_format, of 0 0 ?v 1] t k(2) by blast
  then have o1: "at3 out 0 0 1 = Fin 2" unfolding s by simp
  have p1: "slp_transfer odd_params (Fin 1) 0 = gaussian (Fin 1) 0"
    using inst [THEN conjunct2, THEN mp, OF h(2), THEN conjunct1] .
  have p2: "\<exists>out. slp_filter pair_grid (Fin 1) 1 2 90 90 odd_params = Inr out
          \<and> at2 out 0 0 = Fin (6 - exp (- (81 / 20000)))
          \<and> at2 out 0 1 = Fin (6 + exp (- (81 / 20000)))"
    using inst [THEN conjunct2, THEN mp, OF h(2), THEN conjunct2, THEN conjunct2, THEN mp, OF g]
    by (auto simp: lessThan_Suc numeral_2_eq_2)
  have p3: "\<exists>out. temporal_low_pass_filter w_cube [0, 1, 2] odd_params = Inr out
          \<and> at3 out 0 0 0 = Fin 2 \<and> at3 out 0 0 1 = Fin 2"
    using o(2) o0 o1 by blast
  have cells: "at3 w_cube 0 0 0 = Fin 1" "at3 w_cube 0 0 1 = Fin 3"
    "at2 pair_grid 0 0 = Fin 5" "at2 pair_grid 0 1 = Fin 7"
    by (simp_all add: w_cube_def pair_grid_def)
  show ?thesis
    using h t(1,2,3) g [THEN conjunct1] g [THEN conjunct2, THEN conjunct1] cells o(1) p1 p2 p3
    by simp
qed

lemma save_aps_corrected_phase_result:
  assumes "rasters w ifg_path = Some ra"
    and "rows2 phase = rows2 (phase_data ra)" and "cols2 phase = cols2 (phase_data ra)"
  shows "save_aps_corrected_phase ifg_path phase w =
           Inr (w\<lparr>rasters := (rasters w)(ifg_path \<mapsto>
                    ra\<lparr>meta_data := (meta_data ra)(PYRATE_APS_ERROR \<mapsto> APS_REMOVED),
                       phase_data := (phase_data ra)\<lparr>at2 := (\<lambda>r c.
                           if \<not> isnan (at2 (phase_data ra) r c) then at2 phase r c
                           else at2 (phase_data ra) r c)\<rparr>\<rparr>),
                  calls := calls w @ [Open ifg_path False,
                                      SetMetadataItem ifg_path PYRATE_APS_ERROR APS_REMOVED,
                                      WriteModifiedPhase ifg_path, Close ifg_path]\<rparr>)"
  using assms
  by (simp add: save_aps_corrected_phase_def ifg_open_def overwrite_valid_def
      set_metadata_item_def write_modified_phase_def ifg_close_def cong: if_cong)

text \<open>
  Claim C3. Persisting a corrected interferogram whose raster exists and has the shape
  of the reconstructed phase succeeds. In the stored raster, every cell that was not NaN
  holds the reconstructed phase and every cell that was NaN is still NaN; the
  correction-status tag is "APS-removed"; no other raster, no scratch file and no log
  entry changes; and the calls to the raster layer are, in this order, the opening for
  writing, the setting of the tag, the writing of the modified phase and the closing.
\<close>

theorem save_overwrites_valid_pixels_only:
  assumes "rasters w ifg_path = Some ra"
    and "rows2 phase = rows2 (phase_data ra)" and "cols2 phase = cols2 (phase_data ra)"
  shows "\<exists>w' ra'.
           save_aps_corrected_phase ifg_path phase w = Inr w'
           \<and> rasters w' ifg_path = Some ra'
           \<and> (\<forall>r c. at2 (phase_data ra') r c =
                      (if isnan (at2 (phase_data ra) r c) then NaN else at2 phase r c))
           \<and> rows2 (phase_data ra') = rows2 (phase_data ra)
           \<and> cols2 (phase_data ra') = cols2 (phase_data ra)
           \<and> meta_data ra' PYRATE_APS_ERROR = Some APS_REMOVED
           \<and> (\<forall>q. q \<noteq> ifg_path \<longrightarrow> rasters w' q = rasters w q)
           \<and> scratch w' = scratch w \<and> logged w' = logged w
           \<and> calls w' = calls w @ [Open ifg_path False,
                                    SetMetadataItem ifg_path PYRATE_APS_ERROR APS_REMOVED,
                                    WriteModifiedPhase ifg_path, Close ifg_path]"
proof -
  let ?ra' = "ra\<lparr>meta_data := (meta_data ra)(PYRATE_APS_ERROR \<mapsto> APS_REMOVED),
                phase_data := (phase_data ra)\<lparr>at2 := (\<lambda>r c.
                    if \<not> isnan (at2 (phase_data ra) r c) then at2 phase r c
                    else at2 (phase_data ra) r c)\<rparr>\<rparr>"
  let ?w' = "w\<lparr>rasters := (rasters w)(ifg_path \<mapsto> ?ra'),
               calls := calls w @ [Open ifg_path False,
                                   SetMetadataItem ifg_path PYRATE_APS_ERROR APS_REMOVED,
                                   WriteModifiedPhase ifg_path, Close ifg_path]\<rparr>"
  have "save_aps_corrected_phase ifg_path phase w = Inr ?w'"
    by (rule save_aps_corrected_phase_result [OF assms])
  then show ?thesis
    by (intro exI [of _ ?w'] exI [of _ ?ra'] conjI) (simp_all add: isnan_def)
qed

theorem save_overwrites_valid_pixels_only_witness:
  "rasters gap_world ''a.tif'' = Some gap_raster
   \<and> rows2 new_phase = rows2 (phase_data gap_raster)
   \<and> cols2 new_phase = cols2 (phase_data gap_raster)
   \<and> (\<exists>w' ra'.
         save_aps_corrected_phase ''a.tif'' new_phase gap_world = Inr w'
         \<and> rasters w' ''a.tif'' = Some ra'
         \<and> at2 (phase_data ra') 0 0 = NaN \<and> at2 (phase_data ra') 0 1 = Fin 2
         \<and> meta_data ra' PYRATE_APS_ERROR = Some APS_REMOVED
         \<and> calls w' = [Open ''a.tif'' False,
                        SetMetadataItem ''a.tif'' PYRATE_APS_ERROR APS_REMOVED,
                        WriteModifiedPhase ''a.tif'', Close ''a.tif''])"
proof -
  have h: "rasters gap_world ''a.tif'' = Some gap_raster"
    "rows2 new_phase = rows2 (phase_data gap_raster)"
    "cols2 new_phase = cols2 (phase_data gap_raster)"
    by (simp_all add: gap_world_def gap_raster_def new_phase_def)
  from save_overwrites_valid_pixels_only [OF h] obtain w' ra' where
    o: "save_aps_corrected_phase ''a.tif'' new_phase gap_world = Inr w'"
    "rasters w' ''a.tif'' = Some ra'"
    "\<forall>r c. at2 (phase_data ra') r c =
        (if isnan (at2 (phase_data gap_raster) r c) then NaN else at2 new_phase r c)"
    "meta_data ra' PYRATE_APS_ERROR = Some APS_REMOVED"
    "calls w' = calls gap_world @ [Open ''a.tif'' False,
        SetMetadataItem ''a.tif'' PYRATE_APS_ERROR APS_REMOVED,
        WriteModifiedPhase ''a.tif'', Close ''a.tif'']"
    by blast
  have "at2 (phase_data ra') 0 0 = NaN" "at2 (phase_data ra') 0 1 = Fin 2"
    using o(3) by (simp_all add: gap_raster_def new_phase_def isnan_def)
  moreover have "calls w' = [Open ''a.tif'' False,
        SetMetadataItem ''a.tif'' PYRATE_APS_ERROR APS_REMOVED,
        WriteModifiedPhase ''a.tif'', Close ''a.tif'']"
    using o(5) by (simp add: gap_world_def)
  ultimately show ?thesis using h o(1,2,4) by blast
qed





lemma save_elim:
  assumes "save_aps_corrected_phase path phase v = Inr v'"
  obtains ra where "rasters v path = Some ra"
    and "rows2 phase = rows2 (phase_data ra)" and "cols2 phase = cols2 (phase_data ra)"
  using assms
  by (auto simp: save_aps_corrected_phase_def ifg_open_def overwrite_valid_def
      split: option.splits sum.splits if_splits prod.splits)

lemma save_frame:
  assumes "save_aps_corrected_phase path phase v = Inr v'" and "q \<noteq> path"
  shows "rasters v' q = rasters v q"
proof -
  from save_elim [OF assms(1)] obtain ra where ra: "rasters v path = Some ra"
    "rows2 phase = rows2 (phase_data ra)" "cols2 phase = cols2 (phase_data ra)" by blast
  from assms(1) show ?thesis
    unfolding save_aps_corrected_phase_result [OF ra] using assms(2) by auto
qed


lemma save_at:
  assumes "save_aps_corrected_phase path phase v = Inr v'" and "rasters v path = Some ra"
  shows "\<exists>ra'. rasters v' path = Some ra'
           \<and> (\<forall>r c. at2 (phase_data ra') r c =
                      (if isnan (at2 (phase_data ra) r c) then NaN else at2 phase r c))
           \<and> rows2 (phase_data ra') = rows2 (phase_data ra)
           \<and> cols2 (phase_data ra') = cols2 (phase_data ra)
           \<and> meta_data ra' PYRATE_APS_ERROR = Some APS_REMOVED"
proof -
  from save_elim [OF assms(1)] assms(2) have sh:
    "rows2 phase = rows2 (phase_data ra)" "cols2 phase = cols2 (phase_data ra)" by auto
  from assms(1) show ?thesis
    unfolding save_aps_corrected_phase_result [OF assms(2) sh] by (auto simp: isnan_def)
qed

lemma in_enumerate0: "(j, g) \<in> set (enumerate 0 xs) \<longleftrightarrow> j < length xs \<and> xs ! j = g"
  by (auto simp: in_set_enumerate_eq)





















lemma has_tag_rasters: "rasters w' = rasters w \<Longrightarrow> has_tag w' key = has_tag w key"
  by (rule ext) (simp add: has_tag_def)

lemma wrapper_skip:
  assumes "list_all (has_tag w PYRATE_APS_ERROR) ifg_paths"
  shows "wrap_spatio_temporal_filter env ifg_paths p tiles preread_ifgs w =
           Inr (w\<lparr>logged := logged w @ skip_log p\<rparr>)"
proof (cases "apsest p = 0")
  case True
  then show ?thesis by (simp add: wrap_spatio_temporal_filter_def log_msg_def skip_log_def)
next
  case False
  let ?w1 = "log_msg DEBUG ''Checking APS correction status'' [] w"
  have r: "rasters ?w1 = rasters w" by (simp add: log_msg_def)
  have tag: "list_all (has_tag ?w1 PYRATE_APS_ERROR) ifg_paths"
    using assms by (simp add: has_tag_rasters [OF r])
  then have ex: "list_all (\<lambda>p. rasters ?w1 p \<noteq> None) ifg_paths"
    by (auto simp: list_all_iff has_tag_def split: option.splits)
  have "check_correction_status ?w1 ifg_paths PYRATE_APS_ERROR = Inr True"
    using tag ex by (simp add: check_correction_status_def)
  then show ?thesis
    using False by (simp add: wrap_spatio_temporal_filter_def Let_def log_msg_def skip_log_def)
qed

lemma save_has_tag:
  assumes "save_aps_corrected_phase path phase v = Inr v'"
  shows "has_tag v' PYRATE_APS_ERROR path"
proof -
  from save_elim [OF assms] obtain ra where "rasters v path = Some ra" by blast
  from save_at [OF assms this] show ?thesis by (auto simp: has_tag_def)
qed

lemma save_keeps_tag:
  assumes "save_aps_corrected_phase path phase v = Inr v'" and "has_tag v PYRATE_APS_ERROR q"
  shows "has_tag v' PYRATE_APS_ERROR q"
proof (cases "q = path")
  case True
  then show ?thesis using save_has_tag [OF assms(1)] by simp
next
  case False
  from save_frame [OF assms(1) False] assms(2) show ?thesis by (simp add: has_tag_def)
qed

lemma ts_to_ifgs_tags:
  assumes "ts_to_ifgs ge tsincr preread_ifgs w = Inr w'" and "g \<in> snd ` set preread_ifgs"
  shows "has_tag w' PYRATE_APS_ERROR (pr_path g)"
proof -
  let ?ifgs = "sorted_values preread_ifgs"
  let ?w0 = "log_msg DEBUG ''Reconstructing interferometric observations from time series'' [] w"
  from assms(1) obtain ep n where ge: "ge ?ifgs = Inr (ep, n)"
    by (auto simp: ts_to_ifgs_def Let_def split: sum.splits)
  let ?body = "\<lambda>(j, g) v.
      case np_get (take (length ?ifgs) n) j of
        Inl e \<Rightarrow> Inl e
      | Inr m \<Rightarrow>
          (case np_get (drop (length ?ifgs) n) j of
             Inl e \<Rightarrow> Inl e
           | Inr s \<Rightarrow> save_aps_corrected_phase (pr_path g) (reconstruct tsincr m s) v)"
  from assms(1) ge have run: "for_each (enumerate 0 ?ifgs) ?body ?w0 = Inr w'"
    by (simp add: ts_to_ifgs_def Let_def)
  have body: "\<exists>phase. save_aps_corrected_phase (pr_path h) phase t = Inr t'"
    if "?body (j, h) t = Inr t'" for j h t t'
    using that by (auto split: sum.splits)
  from assms(2) have "g \<in> set ?ifgs" by (simp add: sorted_values_def)
  then obtain i where "i < length ?ifgs" "?ifgs ! i = g" by (auto simp: in_set_conv_nth)
  then have i: "(i, g) \<in> set (enumerate 0 ?ifgs)" by (simp add: in_enumerate0)
  show ?thesis
  proof (rule for_each_last_write [where Q = "\<lambda>v. has_tag v PYRATE_APS_ERROR (pr_path g)",
        OF run])
    show "(i, g) \<in> set (enumerate 0 ?ifgs) \<or> has_tag ?w0 PYRATE_APS_ERROR (pr_path g)"
      using i by simp
  next
    fix t t' assume "?body (i, g) t = Inr t'"
    from body [OF this] save_has_tag show "has_tag t' PYRATE_APS_ERROR (pr_path g)" by blast
  next
    fix y t t'
    assume q: "has_tag t PYRATE_APS_ERROR (pr_path g)" and b: "?body y t = Inr t'"
    obtain j h where "y = (j, h)" by (cases y)
    with b body [of j h t t'] save_keeps_tag q
    show "has_tag t' PYRATE_APS_ERROR (pr_path g)" by blast
  qed
qed

lemma spatio_temporal_filter_tags:
  assumes "spatio_temporal_filter env tsincr geom p preread_ifgs w = Inr w'"
    and "g \<in> snd ` set preread_ifgs"
  shows "has_tag w' PYRATE_APS_ERROR (pr_path g)"
proof -
  from assms(1) obtain corrected where
    "ts_to_ifgs (env_get_epochs env) corrected preread_ifgs w = Inr w'"
    by (auto simp: spatio_temporal_filter_def split: sum.splits prod.splits)
  from ts_to_ifgs_tags [OF this assms(2)] show ?thesis .
qed

text \<open>After a run that returned, a run that was not skipped has tagged every pre-read interferogram.\<close>

lemma wrapper_tags:
  assumes "wrap_spatio_temporal_filter env ifg_paths p tiles preread_ifgs w = Inr w1"
    and "set ifg_paths \<subseteq> pr_path ` snd ` set preread_ifgs"
  shows "apsest p = 0 \<or> list_all (has_tag w1 PYRATE_APS_ERROR) ifg_paths"
proof (cases "apsest p = 0")
  case True
  then show ?thesis by simp
next
  case False
  let ?w0 = "log_msg DEBUG ''Checking APS correction status'' [] w"
  from assms(1) False obtain b where
    chk: "check_correction_status ?w0 ifg_paths PYRATE_APS_ERROR = Inr b"
    by (auto simp: wrap_spatio_temporal_filter_def Let_def split: sum.splits)
  show ?thesis
  proof (cases b)
    case True
    with chk assms(1) False have w1: "w1 = log_msg DEBUG ''Finished APS correction'' [] ?w0"
      by (simp add: wrap_spatio_temporal_filter_def Let_def)
    from chk True have "list_all (has_tag ?w0 PYRATE_APS_ERROR) ifg_paths"
      by (auto simp: check_correction_status_def split: if_splits)
    moreover have r: "rasters w1 = rasters ?w0" by (simp add: w1 log_msg_def)
    ultimately show ?thesis by (simp add: has_tag_rasters [OF r])
  next
    case b: False
    from assms(1) False chk b have
      "(case calc_svd_time_series env ifg_paths p preread_ifgs tiles ?w0 of
          Inl e \<Rightarrow> Inl e
        | Inr (tsincr, w2) \<Rightarrow>
            (case np_get ifg_paths 0 of
               Inl e \<Rightarrow> Inl e
             | Inr path0 \<Rightarrow>
                 (case ifg_open path0 True w2 of
                    Inl e \<Rightarrow> Inl e
                  | Inr (h, w3) \<Rightarrow>
                      (case spatio_temporal_filter env tsincr (h_geom h) p preread_ifgs w3 of
                         Inl e \<Rightarrow> Inl e
                       | Inr w4 \<Rightarrow> Inr (ifg_close h w4))))) = Inr w1"
      by (simp add: wrap_spatio_temporal_filter_def Let_def)
    then obtain tsincr w2 h w3 w4 where
      st: "spatio_temporal_filter env tsincr (h_geom h) p preread_ifgs w3 = Inr w4"
      and w1: "w1 = ifg_close h w4"
      by (auto split: sum.splits prod.splits)
    have "has_tag w1 PYRATE_APS_ERROR q" if "q \<in> set ifg_paths" for q
    proof -
      from that assms(2) obtain g where g: "g \<in> snd ` set preread_ifgs" "q = pr_path g" by blast
      from spatio_temporal_filter_tags [OF st g(1)] show ?thesis
        by (simp add: w1 g(2) has_tag_def ifg_close_def)
    qed
    then show ?thesis by (simp add: list_all_iff)
  qed
qed

text \<open>
  Claim C7. If every interferogram of the input set carries the "APS-removed" tag, the
  wrapper returns at once: no raster, no scratch file and no raster call is added or
  changed, and the log gains only the entries of a skipped run, so no time series was
  computed and nothing was filtered. And a second run on the world that a first run
  returned, for paths that are those of the pre-read interferograms, is such a skipped
  run: it changes no raster.
\<close>

theorem wrapper_skips_when_all_corrected:
  "(list_all (has_tag w PYRATE_APS_ERROR) ifg_paths \<longrightarrow>
      (\<exists>w'. wrap_spatio_temporal_filter env ifg_paths p tiles preread_ifgs w = Inr w'
             \<and> rasters w' = rasters w \<and> scratch w' = scratch w \<and> calls w' = calls w
             \<and> logged w' = logged w @ skip_log p))
   \<and> (wrap_spatio_temporal_filter env ifg_paths p tiles preread_ifgs w = Inr w1
        \<and> set ifg_paths \<subseteq> pr_path ` snd ` set preread_ifgs \<longrightarrow>
      (\<exists>w2. wrap_spatio_temporal_filter env ifg_paths p tiles preread_ifgs w1 = Inr w2
             \<and> rasters w2 = rasters w1 \<and> scratch w2 = scratch w1 \<and> calls w2 = calls w1
             \<and> logged w2 = logged w1 @ skip_log p))"
proof (intro conjI impI)
  assume "list_all (has_tag w PYRATE_APS_ERROR) ifg_paths"
  from wrapper_skip [OF this, of env p tiles preread_ifgs]
  show "\<exists>w'. wrap_spatio_temporal_filter env ifg_paths p tiles preread_ifgs w = Inr w'
             \<and> rasters w' = rasters w \<and> scratch w' = scratch w \<and> calls w' = calls w
             \<and> logged w' = logged w @ skip_log p"
    by simp
next
  assume a: "wrap_spatio_temporal_filter env ifg_paths p tiles preread_ifgs w = Inr w1
        \<and> set ifg_paths \<subseteq> pr_path ` snd ` set preread_ifgs"
  have "wrap_spatio_temporal_filter env ifg_paths p tiles preread_ifgs w1 =
           Inr (w1\<lparr>logged := logged w1 @ skip_log p\<rparr>)"
  proof (cases "apsest p = 0")
    case True
    then show ?thesis by (simp add: wrap_spatio_temporal_filter_def log_msg_def skip_log_def)
  next
    case False
    with wrapper_tags [OF a [THEN conjunct1] a [THEN conjunct2]]
    have "list_all (has_tag w1 PYRATE_APS_ERROR) ifg_paths" by simp
    from wrapper_skip [OF this] show ?thesis .
  qed
  then show "\<exists>w2. wrap_spatio_temporal_filter env ifg_paths p tiles preread_ifgs w1 = Inr w2
             \<and> rasters w2 = rasters w1 \<and> scratch w2 = scratch w1 \<and> calls w2 = calls w1
             \<and> logged w2 = logged w1 @ skip_log p"
    by simp
qed

theorem wrapper_skips_when_all_corrected_witness:
  "list_all (has_tag tagged_world PYRATE_APS_ERROR) [''a.tif'', ''b.tif'']
   \<and> (\<exists>w'. wrap_spatio_temporal_filter idle_env [''a.tif'', ''b.tif''] w_params [tile0]
              two_preread tagged_world = Inr w'
            \<and> rasters w' = rasters tagged_world \<and> scratch w' = scratch tagged_world
            \<and> calls w' = []
            \<and> logged w' = [(DEBUG, ''Checking APS correction status'', []),
                            (DEBUG, ''Finished APS correction'', [])])"
proof -
  have h: "list_all (has_tag tagged_world PYRATE_APS_ERROR) [''a.tif'', ''b.tif'']"
    by (simp add: has_tag_def tagged_world_def tagged_raster_def)
  from wrapper_skips_when_all_corrected [of tagged_world "[''a.tif'', ''b.tif'']" idle_env
      w_params "[tile0]" two_preread] h
  obtain w' where o: "wrap_spatio_temporal_filter idle_env [''a.tif'', ''b.tif''] w_params [tile0]
              two_preread tagged_world = Inr w'"
    "rasters w' = rasters tagged_world" "scratch w' = scratch tagged_world"
    "calls w' = calls tagged_world" "logged w' = logged tagged_world @ skip_log w_params"
    by blast
  have "calls w' = []" using o(4) by (simp add: tagged_world_def)
  moreover have "logged w' = [(DEBUG, ''Checking APS correction status'', []),
                            (DEBUG, ''Finished APS correction'', [])]"
    using o(5) by (simp add: tagged_world_def skip_log_def w_params_def)
  ultimately show ?thesis using h o(1,2,3) by blast
qed

end
